theory Spec2Isabelle
  imports Main
begin

section \<open>Storage tier (src/shared/storage.py)\<close>

text \<open>
  \<open>StorageManager\<close> keeps two tiers: the local cache directory under
  \<open>scraper_repository/\<close> and, when a bucket is configured, a GCS bucket. Both are
  modelled as association lists from relative path to text content. Every I/O call of the
  source sits in a \<open>try/except Exception\<close>; which calls raise is decided by the
  environment, given here as the record \<open>faults\<close>. A local write that raises is taken
  to leave the file as it was.

  The local directory is also what the module loader of the resolver works on, so the
  state carries what that loader looks at: the modification time of each local file in
  whole seconds (\<open>mtimes\<close>; a write stamps the file with the current \<open>clock\<close>),
  and the bytecode cache kept beside the sources (\<open>pycache\<close>: for a source path, the
  modification time and size the cached bytecode was made for, and the code it was
  compiled from).
\<close>

record storage =
  bucket :: bool
  local_files :: "(string \<times> string) list"
  blobs :: "(string \<times> string) list"
  mtimes :: "(string \<times> nat) list"
  pycache :: "(string \<times> (nat \<times> nat) \<times> string) list"
  clock :: nat

record faults =
  local_write_fails :: "string \<Rightarrow> bool"
  local_read_fails :: "string \<Rightarrow> bool"
  gcs_write_fails :: "string \<Rightarrow> bool"
  gcs_read_fails :: "string \<Rightarrow> bool"
  gcs_list_fails :: bool
  pyc_write_fails :: "string \<Rightarrow> bool"

definition no_faults :: faults where
  "no_faults = \<lparr> local_write_fails = (\<lambda>_. False), local_read_fails = (\<lambda>_. False),
                 gcs_write_fails = (\<lambda>_. False), gcs_read_fails = (\<lambda>_. False),
                 gcs_list_fails = False, pyc_write_fails = (\<lambda>_. False) \<rparr>"

text \<open>Writing a file or blob: overwrite in place when the path is there, else add it.\<close>

fun put_file :: "string \<Rightarrow> 'a \<Rightarrow> (string \<times> 'a) list \<Rightarrow> (string \<times> 'a) list" where
  "put_file p c [] = [(p, c)]"
| "put_file p c ((q, d) # fs) = (if q = p then (p, c) # fs else (q, d) # put_file p c fs)"

text \<open>
  \<open>open(local_path, 'w')\<close> and \<open>f.write(content)\<close>: the file gets the content and
  the current time as its modification time.
\<close>

definition write_local :: "storage \<Rightarrow> string \<Rightarrow> string \<Rightarrow> storage" where
  "write_local st path content =
     st\<lparr>local_files := put_file path content (local_files st),
        mtimes := put_file path (clock st) (mtimes st)\<rparr>"

text \<open>
  \<open>save_content\<close>, lines 29-62: the local write first; when it raises and there is no
  bucket the result is \<open>False\<close>. With a bucket the upload decides the result:
  \<open>True\<close> after the upload, \<open>False\<close> from the \<open>except\<close> branch.
\<close>

definition save_content :: "faults \<Rightarrow> storage \<Rightarrow> string \<Rightarrow> string \<Rightarrow> bool \<times> storage" where
  "save_content F st path content =
     (let local_ok = \<not> local_write_fails F path;
          st1 = (if local_ok then write_local st path content else st)
      in if \<not> local_ok \<and> \<not> bucket st then (False, st1)
         else if bucket st then
           (if gcs_write_fails F path then (False, st1)
            else (True, st1\<lparr>blobs := put_file path content (blobs st1)\<rparr>))
         else (True, st1))"

text \<open>\<open>_save_local_cache\<close>, lines 146-154: a failed cache write is only logged.\<close>

definition save_local_cache :: "faults \<Rightarrow> storage \<Rightarrow> string \<Rightarrow> string \<Rightarrow> storage" where
  "save_local_cache F st path content =
     (if local_write_fails F path then st else write_local st path content)"

text \<open>
  \<open>read_content\<close>, lines 64-95: the bucket first (refreshing the cache on a hit), then
  the local file; \<open>None\<close> when neither has it.
\<close>

definition read_local :: "faults \<Rightarrow> storage \<Rightarrow> string \<Rightarrow> string option" where
  "read_local F st path = (if local_read_fails F path then None else map_of (local_files st) path)"

definition read_content :: "faults \<Rightarrow> storage \<Rightarrow> string \<Rightarrow> string option \<times> storage" where
  "read_content F st path =
     (if bucket st \<and> \<not> gcs_read_fails F path then
        (case map_of (blobs st) path of
           Some content \<Rightarrow> (Some content, save_local_cache F st path content)
         | None \<Rightarrow> (read_local F st path, st))
      else (read_local F st path, st))"

text \<open>\<open>exists\<close>, lines 97-106: with a bucket that answers, only the bucket is asked.\<close>

definition exists_path :: "faults \<Rightarrow> storage \<Rightarrow> string \<Rightarrow> bool" where
  "exists_path F st path =
     (if bucket st \<and> \<not> gcs_read_fails F path then map_of (blobs st) path \<noteq> None
      else map_of (local_files st) path \<noteq> None)"


text \<open>
  \<open>list_files\<close>, lines 108-134: the names of the blobs with the prefix (nothing when
  the listing raises) and the local files whose relative path starts with the prefix, put
  into a Python \<open>set\<close> and returned as \<open>list(files)\<close>. The order in which a set
  is iterated is not fixed by the language; it is the parameter \<open>set_to_list\<close>, applied
  to the distinct names in insertion order.
\<close>

definition startswith :: "string \<Rightarrow> string \<Rightarrow> bool" where
  "startswith s p = (take (length p) s = p)"

definition endswith :: "string \<Rightarrow> string \<Rightarrow> bool" where
  "endswith s p = (length p \<le> length s \<and> drop (length s - length p) s = p)"

definition list_files :: "(string list \<Rightarrow> string list) \<Rightarrow> faults \<Rightarrow> storage \<Rightarrow> string \<Rightarrow> string list" where
  "list_files set_to_list F st pre =
     (let remote = (if bucket st \<and> \<not> gcs_list_fails F
                    then filter (\<lambda>n. startswith n pre) (map fst (blobs st)) else []);
          local = filter (\<lambda>n. startswith n pre) (map fst (local_files st))
      in set_to_list (remdups (remote @ local)))"

section \<open>Python values and library calls\<close>

text \<open>
  Exceptions are values. \<open>FileNotFoundError\<close> carries its message, since the resolver
  raises the same class with different messages.
\<close>

datatype error =
    FileNotFoundError string
  | OSError string
  | JSONDecodeError
  | ValueError
  | TypeError
  | AttributeError
  | KeyError string
  | ReError
  | SyntaxError
  | NameError

text \<open>
  What \<open>json.loads\<close> returns: an object is a Python \<open>dict\<close>, kept as an
  association list in insertion order. Floating-point numbers are left out.
\<close>

datatype json =
    JNull
  | JBool bool
  | JInt int
  | JStr string
  | JArr "json list"
  | JObj "(string \<times> json) list"

text \<open>Truth value of a Python object, as \<open>if x\<close> and \<open>x or y\<close> take it.\<close>

fun truthy :: "json \<Rightarrow> bool" where
  "truthy JNull = False"
| "truthy (JBool b) = b"
| "truthy (JInt n) = (n \<noteq> 0)"
| "truthy (JStr s) = (s \<noteq> [])"
| "truthy (JArr xs) = (xs \<noteq> [])"
| "truthy (JObj kvs) = (kvs \<noteq> [])"

text \<open>\<open>d.get(key, default)\<close>: only a \<open>dict\<close> has the method.\<close>

fun dict_get :: "json \<Rightarrow> string \<Rightarrow> json \<Rightarrow> error + json" where
  "dict_get (JObj kvs) k dflt = Inr (case map_of kvs k of Some v \<Rightarrow> v | None \<Rightarrow> dflt)"
| "dict_get _ k dflt = Inl AttributeError"

text \<open>\<open>d[key] = v\<close> on a \<open>dict\<close>: a key that is there keeps its place, a new one goes last.\<close>

fun dict_setitem :: "string \<Rightarrow> json \<Rightarrow> (string \<times> json) list \<Rightarrow> (string \<times> json) list" where
  "dict_setitem k v [] = [(k, v)]"
| "dict_setitem k v ((k', v') # kvs) =
     (if k' = k then (k, v) # kvs else (k', v') # dict_setitem k v kvs)"

text \<open>
  The library calls whose results the repository only passes on are parameters:
  \<open>urlparse(url).netloc\<close> (\<open>None\<close> for the \<open>ValueError\<close> of a malformed URL),
  \<open>json.loads\<close> (\<open>None\<close> for \<open>JSONDecodeError\<close>), \<open>json.dumps(_, indent=2,
  ensure_ascii=False)\<close>, \<open>re.match(pattern, string)\<close> as "matched or not" (\<open>None\<close>
  for \<open>re.error\<close>), the iteration order of a set, and the child process that runs
  the wrapped code. So is what the interpreter does with a scraper's source when the
  resolver imports it: whether compiling it raises \<open>SyntaxError\<close>, and which
  exception, if any, executing its top-level code as the module of a given name raises.
\<close>

datatype proc_outcome =
    Completed int string string
  | TimeoutExpired string string
  | SpawnFailed string

record pylib =
  urlparse_netloc :: "string \<Rightarrow> string option"
  json_loads :: "string \<Rightarrow> json option"
  json_dumps :: "json \<Rightarrow> string"
  re_match :: "string \<Rightarrow> string \<Rightarrow> bool option"
  set_to_list :: "string list \<Rightarrow> string list"
  subprocess_run :: "string \<Rightarrow> proc_outcome"
  compile_fails :: "string \<Rightarrow> bool"
  exec_raises :: "string \<Rightarrow> string \<Rightarrow> error option"

subsection \<open>\<open>str\<close> methods\<close>

text \<open>\<open>s.replace(".", "_")\<close>: both strings are one character long.\<close>

definition replace_dots :: "string \<Rightarrow> string" where
  "replace_dots s = map (\<lambda>c. if c = CHR ''.'' then CHR ''_'' else c) s"

text \<open>\<open>needle in s\<close>.\<close>

fun contains :: "string \<Rightarrow> string \<Rightarrow> bool" where
  "contains [] needle = (needle = [])"
| "contains (c # cs) needle = (startswith (c # cs) needle \<or> contains cs needle)"





subsection \<open>\<open>re.escape\<close> and the patterns it is used in\<close>

text \<open>
  \<open>re.escape\<close> (Python 3.7 and later) puts a backslash before each of
  \<open>()[]{}?*+-|^$.&~#\<close>, backslash, space, tab, newline, carriage return, vertical tab and form feed.
\<close>

definition re_special :: "char \<Rightarrow> bool" where
  "re_special c = (c \<in> set ''()[]{}?*+-|^$.&~# '' \<or> c = CHR 0x5C \<or> c = CHR 0x09
                    \<or> c = CHR 0x0A \<or> c = CHR 0x0D \<or> c = CHR 0x0B \<or> c = CHR 0x0C)"

fun re_escape :: "string \<Rightarrow> string" where
  "re_escape [] = []"
| "re_escape (c # cs) = (if re_special c then CHR 0x5C # c # re_escape cs else c # re_escape cs)"

text \<open>
  A matcher for the patterns the writer produces: literal characters, a backslash before a
  character that is not an ASCII letter or digit, \<open>.\<close> (any character but newline), and
  the postfix \<open>?\<close> and \<open>*\<close>. Any other construct is outside this fragment and gives
  \<open>None\<close>. \<open>re.match\<close> anchors at the start of the string only.
\<close>

datatype re_atom = Lit char | AnyChar

datatype re_quant = Once | Opt | Star

datatype re_tok = TAtom re_atom | TOpt | TStar | TBad

definition ascii_alnum :: "char \<Rightarrow> bool" where
  "ascii_alnum c = (let n = of_char c :: nat in
     (48 \<le> n \<and> n \<le> 57) \<or> (65 \<le> n \<and> n \<le> 90) \<or> (97 \<le> n \<and> n \<le> 122))"

definition tok_of :: "char \<Rightarrow> re_tok" where
  "tok_of c = (if c = CHR ''.'' then TAtom AnyChar
               else if c = CHR ''?'' then TOpt
               else if c = CHR ''*'' then TStar
               else if c \<in> set ''^$+{}[]|()'' \<or> c = CHR 0x5C then TBad
               else TAtom (Lit c))"

fun re_tokens :: "string \<Rightarrow> re_tok list" where
  "re_tokens [] = []"
| "re_tokens (c # cs) =
     (if c = CHR 0x5C then
        (case cs of [] \<Rightarrow> [TBad]
         | d # ds \<Rightarrow> (if ascii_alnum d then TBad else TAtom (Lit d)) # re_tokens ds)
      else tok_of c # re_tokens cs)"

fun re_items :: "re_tok list \<Rightarrow> (re_atom \<times> re_quant) list option" where
  "re_items [] = Some []"
| "re_items (TAtom a # TOpt # ts) = map_option ((#) (a, Opt)) (re_items ts)"
| "re_items (TAtom a # TStar # ts) = map_option ((#) (a, Star)) (re_items ts)"
| "re_items (TAtom a # ts) = map_option ((#) (a, Once)) (re_items ts)"
| "re_items (t # ts) = None"

fun atom_ok :: "re_atom \<Rightarrow> char \<Rightarrow> bool" where
  "atom_ok (Lit c) d = (c = d)"
| "atom_ok AnyChar d = (d \<noteq> CHR 0x0A)"

fun items_match :: "(re_atom \<times> re_quant) list \<Rightarrow> string \<Rightarrow> bool" where
  "items_match [] s = True"
| "items_match ((a, Once) # its) [] = False"
| "items_match ((a, Once) # its) (c # cs) = (atom_ok a c \<and> items_match its cs)"
| "items_match ((a, Opt) # its) [] = items_match its []"
| "items_match ((a, Opt) # its) (c # cs) =
     ((atom_ok a c \<and> items_match its cs) \<or> items_match its (c # cs))"
| "items_match ((a, Star) # its) [] = items_match its []"
| "items_match ((a, Star) # its) (c # cs) =
     ((atom_ok a c \<and> items_match ((a, Star) # its) cs) \<or> items_match its (c # cs))"

definition fragment_re_match :: "string \<Rightarrow> string \<Rightarrow> bool option" where
  "fragment_re_match pat s = map_option (\<lambda>its. items_match its s) (re_items (re_tokens pat))"

section \<open>Artifact writer (src/shared/scraper_saver.py)\<close>

definition domain_to_filename :: "string \<Rightarrow> string" where
  "domain_to_filename domain = replace_dots domain"

text \<open>
  \<open>save_scraper\<close> returns the two paths and the domain; the paths are given here
  relative to the repository root (the source joins them to its own directory).
\<close>

record saved =
  scraper_path :: string
  metadata_path :: string
  saved_domain :: string

text \<open>Lines 44-52: the key and the two relative paths.\<close>

definition filename_base :: "string \<Rightarrow> string \<Rightarrow> string" where
  "filename_base domain scraper_type =
     (if scraper_type = ''list'' \<or> scraper_type = ''content''
      then domain_to_filename domain @ ''_'' @ scraper_type
      else domain_to_filename domain)"

text \<open>Line 59: \<open>list(selectors.keys()) if isinstance(selectors, dict) else []\<close>.\<close>

definition selector_fields :: "json \<Rightarrow> json list" where
  "selector_fields selectors = (case selectors of JObj kvs \<Rightarrow> map (\<lambda>kv. JStr (fst kv)) kvs | _ \<Rightarrow> [])"

text \<open>
  Lines 62-73: the metadata dictionary. \<open>now1\<close> and \<open>now2\<close> are what the two calls
  of \<open>datetime.now().isoformat()\<close> return.
\<close>

definition build_metadata :: "string \<Rightarrow> string \<Rightarrow> json \<Rightarrow> string option \<Rightarrow> string \<Rightarrow> string \<Rightarrow> string \<Rightarrow> json" where
  "build_metadata domain url selectors site_name scraper_type now1 now2 =
     JObj [(''domain'', JStr domain),
           (''site_name'', JStr (case site_name of None \<Rightarrow> domain
                                 | Some n \<Rightarrow> if n = [] then domain else n)),
           (''scraper_type'', JStr scraper_type),
           (''url_pattern'', JStr (''https?://'' @ re_escape domain @ ''/.*'')),
           (''example_url'', JStr url),
           (''fields'', JArr (selector_fields selectors)),
           (''selectors'', selectors),
           (''created_at'', JStr now1),
           (''last_validated'', JStr now2),
           (''version'', JStr ''1.0'')]"

text \<open>
  \<open>save_scraper\<close>, lines 21-85. The results of the two \<open>save_content\<close> calls are
  not looked at.
\<close>

definition save_scraper ::
  "pylib \<Rightarrow> faults \<Rightarrow> storage \<Rightarrow> string \<Rightarrow> string \<Rightarrow> json \<Rightarrow> string option \<Rightarrow> string
    \<Rightarrow> string \<Rightarrow> string \<Rightarrow> (error + saved) \<times> storage" where
  "save_scraper L F st code url selectors site_name scraper_type now1 now2 =
     (case urlparse_netloc L url of
        None \<Rightarrow> (Inl ValueError, st)
      | Some domain \<Rightarrow>
          (let base = filename_base domain scraper_type;
               scraper_rel_path = ''scrapers/'' @ base @ ''.py'';
               metadata_rel_path = ''metadata/'' @ base @ ''.json'';
               st1 = snd (save_content F st scraper_rel_path code);
               metadata = build_metadata domain url selectors site_name scraper_type now1 now2;
               st2 = snd (save_content F st1 metadata_rel_path (json_dumps L metadata))
           in (Inr \<lparr>scraper_path = scraper_rel_path, metadata_path = metadata_rel_path,
                    saved_domain = domain\<rparr>, st2)))"

text \<open>
  \<open>update_scraper_validation\<close>, lines 88-110. The function returns nothing; the model
  returns which of its three log calls it made. Item assignment on a parsed value that is
  not a \<open>dict\<close> raises \<open>TypeError\<close>, caught by \<open>except Exception\<close> like a parse error.
\<close>

datatype touch_log = LogWarning | LogInfo | LogError

definition update_scraper_validation ::
  "pylib \<Rightarrow> faults \<Rightarrow> storage \<Rightarrow> string \<Rightarrow> string \<Rightarrow> touch_log \<times> storage" where
  "update_scraper_validation L F st domain now =
     (let metadata_rel_path = ''metadata/'' @ domain_to_filename domain @ ''.json''
      in case read_content F st metadata_rel_path of
           (None, st1) \<Rightarrow> (LogWarning, st1)
         | (Some content, st1) \<Rightarrow>
             (if content = [] then (LogWarning, st1)
              else case json_loads L content of
                     Some (JObj kvs) \<Rightarrow>
                       (LogInfo, snd (save_content F st1 metadata_rel_path
                          (json_dumps L (JObj (dict_setitem ''last_validated'' (JStr now) kvs)))))
                   | _ \<Rightarrow> (LogError, st1)))"

section \<open>Repository resolver (src/scraper_repository/__init__.py)\<close>

definition ensure_file_available :: "faults \<Rightarrow> storage \<Rightarrow> string \<Rightarrow> (error + string) \<times> storage" where
  "ensure_file_available F st rel_path =
     (case read_content F st rel_path of
        (None, st1) \<Rightarrow> (Inl (FileNotFoundError (''File not found in storage: '' @ rel_path)), st1)
      | (Some content, st1) \<Rightarrow> (Inr rel_path, st1))"

text \<open>
  Lines 69-71 (and 185-192): \<open>spec_from_file_location\<close>, \<open>module_from_spec\<close> and
  \<open>exec_module\<close>, the source file loader of \<open>importlib\<close>. The loader takes the
  modification time (in whole seconds) and the size of the local file; a missing file
  raises \<open>FileNotFoundError\<close>. When the bytecode cache has an entry made for the same
  two numbers (both compared modulo \<open>2 ^ 32\<close>) it runs the cached code and does not read
  the source. Otherwise it reads and compiles the source, stores the bytecode (a failure
  to store is ignored) and runs it. Running executes the top-level code of the module
  under the name \<open>scraper_<domain>\<close>; an exception raised there leaves
  \<open>exec_module\<close>. A module that loaded is represented by the source text of the code
  that ran.
\<close>

text \<open>
  The size of a text on disk: the file is written as UTF-8, one byte for a code point
  below 128 and two for the others below 256.
\<close>

definition utf8_size :: "string \<Rightarrow> nat" where
  "utf8_size s = sum_list (map (\<lambda>c. if (of_char c :: nat) < 128 then 1 else 2) s)"

definition stamp :: "nat \<Rightarrow> string \<Rightarrow> nat \<times> nat" where
  "stamp mtime src = (mtime mod 2 ^ 32, utf8_size src mod 2 ^ 32)"

definition file_mtime :: "storage \<Rightarrow> string \<Rightarrow> nat" where
  "file_mtime st filepath = (case map_of (mtimes st) filepath of Some t \<Rightarrow> t | None \<Rightarrow> 0)"

definition cached_code :: "storage \<Rightarrow> string \<Rightarrow> nat \<times> nat \<Rightarrow> string option" where
  "cached_code st filepath s =
     (case map_of (pycache st) filepath of
        Some (s', code) \<Rightarrow> if s' = s then Some code else None
      | None \<Rightarrow> None)"

definition run_module :: "pylib \<Rightarrow> string \<Rightarrow> string \<Rightarrow> error + string" where
  "run_module L name code = (case exec_raises L name code of Some e \<Rightarrow> Inl e | None \<Rightarrow> Inr code)"

definition load_module :: "pylib \<Rightarrow> faults \<Rightarrow> storage \<Rightarrow> string \<Rightarrow> string \<Rightarrow> (error + string) \<times> storage" where
  "load_module L F st name filepath =
     (case map_of (local_files st) filepath of
        None \<Rightarrow> (Inl (FileNotFoundError (''No such file or directory: '' @ filepath)), st)
      | Some src \<Rightarrow>
          (case cached_code st filepath (stamp (file_mtime st filepath) src) of
             Some code \<Rightarrow> (run_module L name code, st)
           | None \<Rightarrow>
               if local_read_fails F filepath then (Inl (OSError filepath), st)
               else if compile_fails L src then (Inl SyntaxError, st)
               else (run_module L name src,
                     if pyc_write_fails F filepath then st
                     else st\<lparr>pycache := put_file filepath (stamp (file_mtime st filepath) src, src)
                                             (pycache st)\<rparr>)))"

definition get_scraper :: "pylib \<Rightarrow> faults \<Rightarrow> storage \<Rightarrow> string \<Rightarrow> (error + string) \<times> storage" where
  "get_scraper L F st domain =
     (let rel_path = ''scrapers/'' @ (replace_dots domain @ ''.py'')
      in case ensure_file_available F st rel_path of
           (Inl e, st1) \<Rightarrow> (Inl (FileNotFoundError (''No scraper found for domain: '' @ domain)), st1)
         | (Inr filepath, st1) \<Rightarrow> load_module L F st1 (''scraper_'' @ domain) filepath)"



text \<open>\<open>list_scrapers\<close>, lines 145-167.\<close>

fun collect_scrapers :: "pylib \<Rightarrow> faults \<Rightarrow> string list \<Rightarrow> json list \<Rightarrow> storage \<Rightarrow> json list \<times> storage" where
  "collect_scrapers L F [] scrapers st = (scrapers, st)"
| "collect_scrapers L F (p # ps) scrapers st =
     (if \<not> endswith p ''.json'' then collect_scrapers L F ps scrapers st
      else case read_content F st p of
        (None, st1) \<Rightarrow> collect_scrapers L F ps scrapers st1
      | (Some content, st1) \<Rightarrow>
          (if content = [] then collect_scrapers L F ps scrapers st1
           else case json_loads L content of
             None \<Rightarrow> collect_scrapers L F ps scrapers st1
           | Some metadata \<Rightarrow> collect_scrapers L F ps (scrapers @ [metadata]) st1))"

definition list_scrapers :: "pylib \<Rightarrow> faults \<Rightarrow> storage \<Rightarrow> json list \<times> storage" where
  "list_scrapers L F st = collect_scrapers L F (list_files (set_to_list L) F st ''metadata/'') [] st"

text \<open>\<open>get_scraper_pipeline\<close>, lines 170-195, and \<open>has_scraper_pipeline\<close>, lines 198-206.\<close>

definition get_scraper_pipeline :: "pylib \<Rightarrow> faults \<Rightarrow> storage \<Rightarrow> string \<Rightarrow> (error + string \<times> string) \<times> storage" where
  "get_scraper_pipeline L F st domain =
     (let base_name = replace_dots domain;
          list_rel = ''scrapers/'' @ base_name @ ''_list.py'';
          content_rel = ''scrapers/'' @ base_name @ ''_content.py''
      in case ensure_file_available F st list_rel of
           (Inl e, st1) \<Rightarrow> (Inl (FileNotFoundError (''Incomplete pipeline for domain: '' @ domain)), st1)
         | (Inr list_path, st1) \<Rightarrow>
             (case ensure_file_available F st1 content_rel of
                (Inl e, st2) \<Rightarrow> (Inl (FileNotFoundError (''Incomplete pipeline for domain: '' @ domain)), st2)
              | (Inr content_path, st2) \<Rightarrow>
                  (case load_module L F st2 (''scraper_'' @ domain @ ''_list'') list_path of
                     (Inl e, st3) \<Rightarrow> (Inl e, st3)
                   | (Inr list_module, st3) \<Rightarrow>
                       (case load_module L F st3 (''scraper_'' @ domain @ ''_content'') content_path of
                          (Inl e, st4) \<Rightarrow> (Inl e, st4)
                        | (Inr content_module, st4) \<Rightarrow> (Inr (list_module, content_module), st4)))))"

definition has_scraper_pipeline :: "faults \<Rightarrow> storage \<Rightarrow> string \<Rightarrow> bool" where
  "has_scraper_pipeline F st domain =
     (let base_name = replace_dots domain;
          list_rel = ''scrapers/'' @ base_name @ ''_list.py'';
          content_rel = ''scrapers/'' @ base_name @ ''_content.py''
      in exists_path F st list_rel \<and> exists_path F st content_rel)"

text \<open>
  \<open>list_scraper_pipelines\<close>, lines 209-261. The first \<open>json.loads\<close> sits in a bare
  \<open>try/except\<close>; the one for the content metadata (line 245) does not. Testing
  \<open>domain not in domains_seen\<close> hashes the domain, which raises \<open>TypeError\<close> for a
  list or a dict; any other value that is not a string fails in \<open>has_scraper_pipeline\<close>,
  having no \<open>replace\<close>.
\<close>

definition bind_err :: "error + 'a \<Rightarrow> ('a \<Rightarrow> error + 'b) \<Rightarrow> error + 'b" where
  "bind_err r f = (case r of Inl e \<Rightarrow> Inl e | Inr x \<Rightarrow> f x)"

definition pipeline_summary :: "json \<Rightarrow> json \<Rightarrow> json \<Rightarrow> error + json" where
  "pipeline_summary metadata domain content_metadata =
     bind_err (dict_get metadata ''site_name'' domain) (\<lambda>site_name.
     bind_err (dict_get metadata ''example_url'' (JStr [])) (\<lambda>list_url.
     bind_err (dict_get metadata ''created_at'' (JStr [])) (\<lambda>list_created.
     bind_err (dict_get content_metadata ''example_url'' (JStr [])) (\<lambda>content_url.
     bind_err (dict_get content_metadata ''fields'' (JArr [])) (\<lambda>content_fields.
     bind_err (dict_get content_metadata ''created_at'' (JStr [])) (\<lambda>content_created.
       Inr (JObj [(''domain'', domain),
                  (''site_name'', site_name),
                  (''list_scraper'', JObj [(''example_url'', list_url),
                                           (''created_at'', list_created)]),
                  (''content_scraper'', JObj [(''example_url'', content_url),
                                              (''fields'', content_fields),
                                              (''created_at'', content_created)])])))))))"

fun collect_pipelines ::
  "pylib \<Rightarrow> faults \<Rightarrow> string list \<Rightarrow> json list \<Rightarrow> string list \<Rightarrow> storage \<Rightarrow> (error + json list) \<times> storage" where
  "collect_pipelines L F [] pipelines domains_seen st = (Inr pipelines, st)"
| "collect_pipelines L F (p # ps) pipelines domains_seen st =
     (if \<not> endswith p ''.json'' then collect_pipelines L F ps pipelines domains_seen st
      else case read_content F st p of
        (None, st1) \<Rightarrow> collect_pipelines L F ps pipelines domains_seen st1
      | (Some content, st1) \<Rightarrow>
          (if content = [] then collect_pipelines L F ps pipelines domains_seen st1
           else case json_loads L content of
             None \<Rightarrow> collect_pipelines L F ps pipelines domains_seen st1
           | Some metadata \<Rightarrow>
               (case dict_get metadata ''scraper_type'' (JStr ''single'') of
                  Inl e \<Rightarrow> (Inl e, st1)
                | Inr scraper_type \<Rightarrow>
                    (case dict_get metadata ''domain'' (JStr []) of
                       Inl e \<Rightarrow> (Inl e, st1)
                     | Inr domain \<Rightarrow>
                         (if scraper_type = JStr ''list'' \<and> truthy domain then
                            (case domain of
                               JStr d \<Rightarrow>
                                 (if d \<in> set domains_seen
                                  then collect_pipelines L F ps pipelines domains_seen st1
                                  else if has_scraper_pipeline F st1 d then
                                    (case read_content F st1
                                            (''metadata/'' @ replace_dots d @ ''_content.json'') of
                                       (content_str, st2) \<Rightarrow>
                                         (case (if content_str = None \<or> content_str = Some []
                                                then Some (JObj [])
                                                else json_loads L (the content_str)) of
                                            None \<Rightarrow> (Inl JSONDecodeError, st2)
                                          | Some content_metadata \<Rightarrow>
                                              (case pipeline_summary metadata domain content_metadata of
                                                 Inl e \<Rightarrow> (Inl e, st2)
                                               | Inr summary \<Rightarrow>
                                                   collect_pipelines L F ps (pipelines @ [summary])
                                                     (d # domains_seen) st2)))
                                  else collect_pipelines L F ps pipelines domains_seen st1)
                             | JArr xs \<Rightarrow> (Inl TypeError, st1)
                             | JObj kvs \<Rightarrow> (Inl TypeError, st1)
                             | _ \<Rightarrow> (Inl AttributeError, st1))
                          else collect_pipelines L F ps pipelines domains_seen st1)))))"

definition list_scraper_pipelines :: "pylib \<Rightarrow> faults \<Rightarrow> storage \<Rightarrow> (error + json list) \<times> storage" where
  "list_scraper_pipelines L F st =
     collect_pipelines L F (list_files (set_to_list L) F st ''metadata/'') [] [] st"

section \<open>Code execution (src/shared/tools.py, \<open>execute_code\<close>)\<close>



text \<open>Lines 307-320: the cleaned code followed by the harness.\<close>

definition nl :: string where
  "nl = [CHR 0x0A]"





section \<open>Notions used in the proofs\<close>

text \<open>
  A path holds a content when the local file has it, stamped with the current second, and,
  with a bucket, the blob has it too: the state right after a successful save.
\<close>

definition holds :: "storage \<Rightarrow> string \<Rightarrow> string \<Rightarrow> bool" where
  "holds st p c =
     (map_of (local_files st) p = Some c \<and> map_of (mtimes st) p = Some (clock st)
      \<and> (bucket st \<longrightarrow> map_of (blobs st) p = Some c))"

text \<open>Everything the storage tier and the loader look at for one path.\<close>

definition at_path ::
  "storage \<Rightarrow> string \<Rightarrow> bool \<times> nat \<times> string option \<times> string option \<times> nat option \<times> ((nat \<times> nat) \<times> string) option" where
  "at_path st q =
     (bucket st, clock st, map_of (blobs st) q, map_of (local_files st) q, map_of (mtimes st) q,
      map_of (pycache st) q)"



text \<open>
  The bytecode cache is fresh for a path and a code when it has no entry with the stamp
  of that code written at the given second, unless the entry was compiled from that code.
\<close>

definition fresh_bytecode :: "storage \<Rightarrow> string \<Rightarrow> nat \<Rightarrow> string \<Rightarrow> bool" where
  "fresh_bytecode st p t code =
     (case map_of (pycache st) p of
        None \<Rightarrow> True
      | Some (s, cached) \<Rightarrow> s \<noteq> stamp t code \<or> cached = code)"

text \<open>
  What is stored for a path imports under a module name when the content a read returns
  compiles and runs without raising, and so does the code of a bytecode cache entry of
  the path.
\<close>

definition importable :: "pylib \<Rightarrow> faults \<Rightarrow> storage \<Rightarrow> string \<Rightarrow> string \<Rightarrow> bool" where
  "importable L F st name p =
     ((case fst (read_content F st p) of
         None \<Rightarrow> True
       | Some c \<Rightarrow> \<not> compile_fails L c \<and> exec_raises L name c = None)
      \<and> (case map_of (pycache st) p of
            None \<Rightarrow> True
          | Some (s, c) \<Rightarrow> exec_raises L name c = None))"

section \<open>Instances of the library parameters\<close>

text \<open>
  \<open>urlsplit_netloc\<close> follows \<open>urllib.parse.urlsplit\<close> as far as the network location:
  leading control characters and spaces and all tabs and newlines are removed, a scheme
  (a letter, then letters, digits, \<open>+\<close>, \<open>-\<close>, \<open>.\<close>, up to the first colon) is cut
  off, and after \<open>//\<close> the network location runs up to the first \<open>/\<close>, \<open>?\<close> or
  \<open>#\<close>. Unbalanced brackets raise \<open>ValueError\<close>. The checks of a bracketed host and
  of non-ASCII hosts are not modelled.
\<close>

definition ascii_alpha :: "char \<Rightarrow> bool" where
  "ascii_alpha c = (let n = of_char c :: nat in (65 \<le> n \<and> n \<le> 90) \<or> (97 \<le> n \<and> n \<le> 122))"

definition scheme_char :: "char \<Rightarrow> bool" where
  "scheme_char c = (ascii_alnum c \<or> c = CHR ''+'' \<or> c = CHR ''-'' \<or> c = CHR ''.'')"

definition strip_scheme :: "string \<Rightarrow> string" where
  "strip_scheme url =
     (let head = takeWhile (\<lambda>c. c \<noteq> CHR '':'') url
      in if length head < length url \<and> head \<noteq> [] \<and> ascii_alpha (hd url) \<and> list_all scheme_char head
         then drop (length head + 1) url else url)"

definition urlsplit_netloc :: "string \<Rightarrow> string option" where
  "urlsplit_netloc url0 =
     (let url1 = dropWhile (\<lambda>c. (of_char c :: nat) \<le> 32) url0;
          url2 = filter (\<lambda>c. c \<noteq> CHR 0x09 \<and> c \<noteq> CHR 0x0A \<and> c \<noteq> CHR 0x0D) url1;
          url = strip_scheme url2
      in if take 2 url = ''//'' then
           (let netloc = takeWhile (\<lambda>c. c \<noteq> CHR ''/'' \<and> c \<noteq> CHR ''?'' \<and> c \<noteq> CHR ''#'') (drop 2 url)
            in if (CHR ''['' \<in> set netloc) \<noteq> (CHR '']'' \<in> set netloc) then None else Some netloc)
         else Some [])"

section \<open>Example environment\<close>

text \<open>
  A concrete instance of the library parameters, for evaluating the model on examples:
  \<open>urlsplit_netloc\<close> and \<open>fragment_re_match\<close> from above, a set order that keeps
  insertion order, and \<open>json.loads\<close> / \<open>json.dumps\<close> given by a table of texts and
  the values they parse to (any other text is reported as corrupt).
\<close>

definition meta_text :: "string \<Rightarrow> string" where
  \<open>meta_text t = ''{'' @ nl @ ''  "domain": "a.com",'' @ nl
                  @ ''  "last_validated": "'' @ t @ ''"'' @ nl @ ''}''\<close>

definition meta_value :: "string \<Rightarrow> json" where
  "meta_value t = JObj [(''domain'', JStr ''a.com''), (''last_validated'', JStr t)]"

definition example_table :: "(string \<times> json) list" where
  \<open>example_table =
     [(''{"domain": "a.com", "scraper_type": "list"}'',
         JObj [(''domain'', JStr ''a.com''), (''scraper_type'', JStr ''list'')]),
      (''{"domain": "b.org", "url_pattern": "https?://.*/news/.*"}'',
         JObj [(''domain'', JStr ''b.org''), (''url_pattern'', JStr ''https?://.*/news/.*'')]),
      (meta_text ''2024-01-01T00:00:00'', meta_value ''2024-01-01T00:00:00''),
      (meta_text ''2024-02-02T00:00:00'', meta_value ''2024-02-02T00:00:00''),
      (meta_text ''2024-03-03T00:00:00'', meta_value ''2024-03-03T00:00:00'')]\<close>

text \<open>
  The child process of the examples: a scraper that sleeps for a minute is killed at the
  deadline after printing one line, one that warns writes to stderr and exits normally.
\<close>

definition example_run :: "string \<Rightarrow> proc_outcome" where
  "example_run src =
     (if contains src ''time.sleep(60)'' then TimeoutExpired (''started'' @ nl) []
      else if contains src ''warnings.warn'' then Completed 0 (''{}'' @ nl) ''UserWarning: slow''
      else Completed 0 (''{}'' @ nl) [])"

text \<open>
  The scraper sources of the examples; they compile and import without raising. The
  example interpreter takes every other source to raise \<open>NameError\<close> on import.
\<close>

definition example_sources :: "string list" where
  "example_sources =
     [''def scrape(url): return {}'',
      ''def scrape(url): return {1: []}'',
      ''def scrape(url): return dict(title=1)'',
      ''def scrape(url): return dict(title=2)'']"

definition example_lib :: pylib where
  "example_lib =
     \<lparr>urlparse_netloc = urlsplit_netloc,
      json_loads = map_of example_table,
      json_dumps = (\<lambda>j. case map_of (map (\<lambda>(t, v). (v, t)) example_table) j of
                           Some t \<Rightarrow> t | None \<Rightarrow> ''null''),
      re_match = fragment_re_match,
      set_to_list = (\<lambda>names. names),
      subprocess_run = example_run,
      compile_fails = (\<lambda>src. False),
      exec_raises = (\<lambda>name src. if src \<in> set example_sources then None else Some NameError)\<rparr>"

text \<open>
  A repository without a bucket that holds the given files, all last written at second
  1690000000, with an empty bytecode cache and the clock at 1700000000.
\<close>

definition local_repository :: "(string \<times> string) list \<Rightarrow> storage" where
  "local_repository files =
     \<lparr>bucket = False, local_files = files, blobs = [],
      mtimes = map (\<lambda>f. (fst f, 1690000000)) files, pycache = [], clock = 1700000000\<rparr>"

definition empty_storage :: storage where
  "empty_storage = local_repository []"






text \<open>
  A repository whose content metadata for \<open>a.com\<close> is a truncated file, and one that
  holds a single metadata file.
\<close>

definition broken_pipeline_storage :: storage where
  \<open>broken_pipeline_storage =
     local_repository
        [(''metadata/a_com_list.json'', ''{"domain": "a.com", "scraper_type": "list"}''),
         (''metadata/a_com_content.json'', ''{"domain": "a.com", "scraper_ty''),
         (''scrapers/a_com_list.py'', ''def scrape(url): return {}''),
         (''scrapers/a_com_content.py'', ''def scrape(url): return {}'')]\<close>

definition touch_storage :: storage where
  "touch_storage = local_repository [(''metadata/a_com.json'', meta_text ''2024-01-01T00:00:00'')]"



text \<open>
  A repository with a bucket configured whose two scrapers for \<open>a.com\<close> are only in
  the local cache, and a local one that holds the list scraper only.
\<close>

definition local_only_storage :: storage where
  "local_only_storage =
     (local_repository [(''scrapers/a_com_list.py'', ''def scrape(url): return {1: []}''),
                        (''scrapers/a_com_content.py'', ''def scrape(url): return {}'')])
       \<lparr>bucket := True\<rparr>"

definition list_only_storage :: storage where
  "list_only_storage =
     local_repository [(''scrapers/a_com_list.py'', ''def scrape(url): return {1: []}'')]"


section \<open>Pattern fallback as the specification states it\<close>







section \<open>Facts about the storage tier\<close>

lemma map_of_put_file: "map_of (put_file p c fs) = (map_of fs)(p \<mapsto> c)"
  by (induction fs) (auto simp: fun_eq_iff)

lemma write_local_simps:
  "bucket (write_local st p c) = bucket st"
  "blobs (write_local st p c) = blobs st"
  "pycache (write_local st p c) = pycache st"
  "clock (write_local st p c) = clock st"
  "map_of (local_files (write_local st p c)) = (map_of (local_files st))(p \<mapsto> c)"
  "map_of (mtimes (write_local st p c)) = (map_of (mtimes st))(p \<mapsto> clock st)"
  by (simp_all add: write_local_def map_of_put_file)

lemma save_content_frame:
  "pycache (snd (save_content F st p c)) = pycache st"
  "clock (snd (save_content F st p c)) = clock st"
  "bucket (snd (save_content F st p c)) = bucket st"
  by (simp_all add: save_content_def Let_def write_local_simps)

lemma save_holds:
  "\<not> local_write_fails F p \<Longrightarrow> \<not> gcs_write_fails F p \<Longrightarrow> holds (snd (save_content F st p c)) p c"
  by (simp add: holds_def save_content_def Let_def map_of_put_file write_local_simps)

lemma save_other:
  "q \<noteq> p \<Longrightarrow> holds st p c \<Longrightarrow> holds (snd (save_content F st q c')) p c"
  by (simp add: holds_def save_content_def Let_def map_of_put_file write_local_simps)

lemma holds_read:
  assumes "holds st p c"
  shows "fst (read_content F st p) = (if local_read_fails F p \<and> (\<not> bucket st \<or> gcs_read_fails F p)
                                       then None else Some c)"
    and "holds (snd (read_content F st p)) p c"
    and "pycache (snd (read_content F st p)) = pycache st"
    and "clock (snd (read_content F st p)) = clock st"
  using assms
  by (auto simp: holds_def read_content_def read_local_def save_local_cache_def write_local_simps
        split: option.splits)

lemma holds_load:
  assumes "holds st p c" and "\<not> local_read_fails F p" and "\<not> compile_fails L c"
    and "fresh_bytecode st p (clock st) c"
  shows "fst (load_module L F st name p) = run_module L name c"
  using assms
  by (auto simp: holds_def load_module_def cached_code_def file_mtime_def fresh_bytecode_def
        split: option.splits)

lemma holds_get_scraper:
  assumes "holds st (''scrapers/'' @ (replace_dots d @ ''.py'')) c"
    and "\<not> local_read_fails F (''scrapers/'' @ (replace_dots d @ ''.py''))"
    and "\<not> compile_fails L c"
    and "fresh_bytecode st (''scrapers/'' @ (replace_dots d @ ''.py'')) (clock st) c"
  shows "fst (get_scraper L F st d) = run_module L (''scraper_'' @ d) c"
proof -
  define p where "p = ''scrapers/'' @ (replace_dots d @ ''.py'')"
  note r = holds_read [OF assms(1) [folded p_def], of F]
  have f: "fresh_bytecode (snd (read_content F st p)) p (clock (snd (read_content F st p))) c"
    using assms(4) r(3,4) by (simp add: fresh_bytecode_def p_def)
  have "fst (load_module L F (snd (read_content F st p)) (''scraper_'' @ d) p) = run_module L (''scraper_'' @ d) c"
    using r(2) assms(2,3) f by (intro holds_load) (simp_all add: p_def)
  moreover have "fst (read_content F st p) = Some c"
    using r(1) assms(2) by (simp add: p_def)
  ultimately show ?thesis
    unfolding get_scraper_def ensure_file_available_def Let_def p_def [symmetric]
    by (cases "read_content F st p") simp
qed

lemma save_scraper_holds:
  assumes "urlparse_netloc L url = Some d"
    and "\<not> local_write_fails F (''scrapers/'' @ (replace_dots d @ ''.py''))"
    and "\<not> gcs_write_fails F (''scrapers/'' @ (replace_dots d @ ''.py''))"
  shows "holds (snd (save_scraper L F st code url selectors site_name ''single'' now1 now2))
           (''scrapers/'' @ (replace_dots d @ ''.py'')) code"
    and "pycache (snd (save_scraper L F st code url selectors site_name ''single'' now1 now2)) = pycache st"
    and "clock (snd (save_scraper L F st code url selectors site_name ''single'' now1 now2)) = clock st"
proof -
  let ?p = "''scrapers/'' @ (replace_dots d @ ''.py'')"
  let ?q = "''metadata/'' @ replace_dots d @ ''.json''"
  have h1: "holds (snd (save_content F st ?p code)) ?p code"
    using assms by (intro save_holds)
  have "?q \<noteq> ?p" by simp
  then have "holds (snd (save_content F (snd (save_content F st ?p code)) ?q c')) ?p code" for c'
    using h1 by (rule save_other)
  then show "holds (snd (save_scraper L F st code url selectors site_name ''single'' now1 now2)) ?p code"
    using assms(1) by (simp add: save_scraper_def filename_base_def domain_to_filename_def Let_def)
  show "pycache (snd (save_scraper L F st code url selectors site_name ''single'' now1 now2)) = pycache st"
    using assms(1) by (simp add: save_scraper_def Let_def save_content_frame)
  show "clock (snd (save_scraper L F st code url selectors site_name ''single'' now1 now2)) = clock st"
    using assms(1) by (simp add: save_scraper_def Let_def save_content_frame)
qed

lemma holds_load_state:
  assumes "holds st p c" and "\<not> local_read_fails F p" and "\<not> compile_fails L c"
    and "map_of (pycache st) p = None" and "\<not> pyc_write_fails F p"
  shows "map_of (pycache (snd (load_module L F st name p))) p = Some (stamp (clock st) c, c)"
    and "holds (snd (load_module L F st name p)) p c"
    and "clock (snd (load_module L F st name p)) = clock st"
  using assms
  by (auto simp: holds_def load_module_def cached_code_def file_mtime_def map_of_put_file)

lemma get_scraper_read_some:
  "fst (read_content F st (''scrapers/'' @ (replace_dots d @ ''.py''))) = Some c \<Longrightarrow>
   get_scraper L F st d =
     load_module L F (snd (read_content F st (''scrapers/'' @ (replace_dots d @ ''.py''))))
       (''scraper_'' @ d) (''scrapers/'' @ (replace_dots d @ ''.py''))"
  unfolding get_scraper_def ensure_file_available_def Let_def
  by (cases "read_content F st (''scrapers/'' @ (replace_dots d @ ''.py''))") simp

lemma holds_get_scraper_state:
  assumes "holds st (''scrapers/'' @ (replace_dots d @ ''.py'')) c"
    and "\<not> local_read_fails F (''scrapers/'' @ (replace_dots d @ ''.py''))"
    and "\<not> compile_fails L c"
    and "map_of (pycache st) (''scrapers/'' @ (replace_dots d @ ''.py'')) = None"
    and "\<not> pyc_write_fails F (''scrapers/'' @ (replace_dots d @ ''.py''))"
  shows "map_of (pycache (snd (get_scraper L F st d))) (''scrapers/'' @ (replace_dots d @ ''.py''))
           = Some (stamp (clock st) c, c)"
    and "holds (snd (get_scraper L F st d)) (''scrapers/'' @ (replace_dots d @ ''.py'')) c"
    and "clock (snd (get_scraper L F st d)) = clock st"
proof -
  define p where "p = ''scrapers/'' @ (replace_dots d @ ''.py'')"
  note r = holds_read [OF assms(1) [folded p_def], of F]
  have rs: "fst (read_content F st p) = Some c"
    using r(1) assms(2) by (simp add: p_def)
  note g = get_scraper_read_some [of F st d c L, folded p_def, OF rs]
  have n: "map_of (pycache (snd (read_content F st p))) p = None"
    using assms(4) r(3) by (simp add: p_def)
  note l = holds_load_state [OF r(2) assms(2) [folded p_def] assms(3) n assms(5) [folded p_def],
             of "''scraper_'' @ d"]
  show "map_of (pycache (snd (get_scraper L F st d))) p = Some (stamp (clock st) c, c)"
    using l(1) r(4) by (simp add: g)
  show "holds (snd (get_scraper L F st d)) p c"
    using l(2) by (simp add: g)
  show "clock (snd (get_scraper L F st d)) = clock st"
    using l(3) r(4) by (simp add: g)
qed

lemma stale_get_scraper:
  assumes "holds st (''scrapers/'' @ (replace_dots d @ ''.py'')) c"
    and "\<not> local_read_fails F (''scrapers/'' @ (replace_dots d @ ''.py''))"
    and "map_of (pycache st) (''scrapers/'' @ (replace_dots d @ ''.py'')) = Some (stamp (clock st) c, old)"
  shows "fst (get_scraper L F st d) = run_module L (''scraper_'' @ d) old"
proof -
  define p where "p = ''scrapers/'' @ (replace_dots d @ ''.py'')"
  note r = holds_read [OF assms(1) [folded p_def], of F]
  have rs: "fst (read_content F st p) = Some c"
    using r(1) assms(2) by (simp add: p_def)
  note g = get_scraper_read_some [of F st d c L, folded p_def, OF rs]
  have "fst (load_module L F (snd (read_content F st p)) (''scraper_'' @ d) p) = run_module L (''scraper_'' @ d) old"
    using r(2,3,4) assms(3)
    by (auto simp: holds_def load_module_def cached_code_def file_mtime_def p_def)
  then show ?thesis by (simp add: g)
qed

lemma example_netloc:
  "urlparse_netloc example_lib ''https://example.org/a'' = Some ''example.org''"
  by (simp add: example_lib_def urlsplit_netloc_def strip_scheme_def Let_def
        ascii_alpha_def scheme_char_def ascii_alnum_def)

lemma example_imports:
  "run_module example_lib name ''def scrape(url): return {}'' = Inr ''def scrape(url): return {}''"
  "run_module example_lib name ''def scrape(url): return {1: []}'' = Inr ''def scrape(url): return {1: []}''"
  "run_module example_lib name ''def scrape(url): return dict(title=1)'' = Inr ''def scrape(url): return dict(title=1)''"
  "run_module example_lib name ''def scrape(url): return dict(title=2)'' = Inr ''def scrape(url): return dict(title=2)''"
  by (simp_all add: run_module_def example_lib_def example_sources_def)

section \<open>Claim C1\<close>

text \<open>
  C1, as stated: for every code, URL and selector map, \<open>save_scraper\<close> with the default
  type followed by \<open>get_scraper\<close> loads exactly the code that was saved. The loader of
  \<open>get_scraper\<close> trusts a cached bytecode file that carries the modification second and
  size of the source. After a scraper was saved and loaded, saving another code of the
  same size for the same domain within that second and loading it returns the first code.
\<close>

theorem C1_counterexample:
  "fst (get_scraper example_lib no_faults
         (snd (save_scraper example_lib no_faults
            (snd (get_scraper example_lib no_faults
               (snd (save_scraper example_lib no_faults empty_storage
                  ''def scrape(url): return dict(title=1)'' ''https://example.org/a'' JNull None
                  ''single'' ''2023-11-14T22:13:20'' ''2023-11-14T22:13:20''))
               ''example.org''))
            ''def scrape(url): return dict(title=2)'' ''https://example.org/a'' JNull None
            ''single'' ''2023-11-14T22:13:20'' ''2023-11-14T22:13:20''))
         ''example.org'')
     = Inr ''def scrape(url): return dict(title=1)''"
proof -
  let ?one = "''def scrape(url): return dict(title=1)''"
  let ?two = "''def scrape(url): return dict(title=2)''"
  define p where "p = ''scrapers/'' @ (replace_dots ''example.org'' @ ''.py'')"
  define stA where "stA = snd (save_scraper example_lib no_faults empty_storage ?one
     ''https://example.org/a'' JNull None ''single'' ''2023-11-14T22:13:20'' ''2023-11-14T22:13:20'')"
  define stB where "stB = snd (get_scraper example_lib no_faults stA ''example.org'')"
  define stC where "stC = snd (save_scraper example_lib no_faults stB ?two
     ''https://example.org/a'' JNull None ''single'' ''2023-11-14T22:13:20'' ''2023-11-14T22:13:20'')"
  have f: "\<not> local_write_fails no_faults p" "\<not> gcs_write_fails no_faults p"
          "\<not> local_read_fails no_faults p" "\<not> pyc_write_fails no_faults p"
    by (simp_all add: no_faults_def)
  have c: "\<not> compile_fails example_lib ?one"
    by (simp add: example_lib_def)
  note a = save_scraper_holds [OF example_netloc f(1,2) [unfolded p_def], of empty_storage ?one
             JNull None "''2023-11-14T22:13:20''" "''2023-11-14T22:13:20''", folded stA_def p_def]
  have na: "map_of (pycache stA) p = None"
    using a(2) by (simp add: empty_storage_def local_repository_def)
  note b = holds_get_scraper_state [of stA "''example.org''" ?one no_faults example_lib,
             folded p_def stB_def, OF a(1) f(3) c na f(4)]
  note d = save_scraper_holds [OF example_netloc f(1,2) [unfolded p_def], of stB ?two
             JNull None "''2023-11-14T22:13:20''" "''2023-11-14T22:13:20''", folded stC_def p_def]
  have s: "stamp (clock stC) ?two = stamp (clock stA) ?one"
    using b(3) d(3) by (simp add: stamp_def utf8_size_def)
  have pc: "map_of (pycache stC) p = Some (stamp (clock stC) ?two, ?one)"
    using b(1) d(2) s by simp
  have "fst (get_scraper example_lib no_faults stC ''example.org'') = run_module example_lib (''scraper_'' @ ''example.org'') ?one"
    using d(1) f(3) pc unfolding p_def by (rule stale_get_scraper)
  then show ?thesis
    unfolding stC_def stB_def stA_def by (simp only: example_imports)
qed


text \<open>
  C1, amended: for every code that compiles, every URL \<open>urlparse\<close> accepts and every
  selector map, \<open>save_scraper\<close> with the default type followed by \<open>get_scraper\<close> on
  the returned domain runs exactly the code that was saved and returns it as the module
  (or raises what its top-level code raises), provided the bytecode cache is fresh for the
  file: it holds no bytecode of other code with the modification second and size of the
  newly written file. The two writes and the local read of the code file are taken not
  to raise.
\<close>

theorem C1_roundtrip:
  assumes "urlparse_netloc L url = Some d"
    and "\<not> local_write_fails F (''scrapers/'' @ domain_to_filename d @ ''.py'')"
    and "\<not> gcs_write_fails F (''scrapers/'' @ domain_to_filename d @ ''.py'')"
    and "\<not> local_read_fails F (''scrapers/'' @ domain_to_filename d @ ''.py'')"
    and "\<not> compile_fails L code"
    and "fresh_bytecode st (''scrapers/'' @ domain_to_filename d @ ''.py'') (clock st) code"
  shows "\<exists>r st'. save_scraper L F st code url selectors site_name ''single'' now1 now2 = (Inr r, st')
           \<and> saved_domain r = d
           \<and> fst (get_scraper L F st' (saved_domain r))
               = (case exec_raises L (''scraper_'' @ d) code of None \<Rightarrow> Inr code | Some e \<Rightarrow> Inl e)"
proof -
  let ?st' = "snd (save_scraper L F st code url selectors site_name ''single'' now1 now2)"
  note h = save_scraper_holds [OF assms(1), of F st code selectors site_name now1 now2]
  have f: "fresh_bytecode ?st' (''scrapers/'' @ (replace_dots d @ ''.py'')) (clock ?st') code"
    using assms(2,3,6) h(2,3) by (simp add: fresh_bytecode_def domain_to_filename_def)
  have "fst (get_scraper L F ?st' d) = run_module L (''scraper_'' @ d) code"
    using assms(2,3,4,5) f h(1)
    by (intro holds_get_scraper) (simp_all add: domain_to_filename_def)
  then show ?thesis
    using assms(1) by (simp add: save_scraper_def Let_def run_module_def)
qed

theorem C1_roundtrip_witness:
  "\<exists>r st'. save_scraper example_lib no_faults empty_storage ''def scrape(url): return {}''
              ''https://example.org/a'' (JObj [(''title'', JStr ''h1'')]) None ''single''
              ''2024-01-01T00:00:00'' ''2024-01-01T00:00:01'' = (Inr r, st')
           \<and> saved_domain r = ''example.org''
           \<and> fst (get_scraper example_lib no_faults st' (saved_domain r)) = Inr ''def scrape(url): return {}''"
proof -
  let ?p = "''scrapers/'' @ domain_to_filename ''example.org'' @ ''.py''"
  have e: "exec_raises example_lib (''scraper_'' @ ''example.org'') ''def scrape(url): return {}'' = None"
    by (simp add: example_lib_def example_sources_def)
  have f: "\<not> local_write_fails no_faults ?p" "\<not> gcs_write_fails no_faults ?p"
          "\<not> local_read_fails no_faults ?p"
    by (simp_all add: no_faults_def)
  have c: "\<not> compile_fails example_lib ''def scrape(url): return {}''"
    by (simp add: example_lib_def)
  have fr: "fresh_bytecode empty_storage ?p (clock empty_storage) ''def scrape(url): return {}''"
    by (simp add: fresh_bytecode_def empty_storage_def local_repository_def)
  show ?thesis
    using C1_roundtrip [OF example_netloc f c fr, of "JObj [(''title'', JStr ''h1'')]" None
            "''2024-01-01T00:00:00''" "''2024-01-01T00:00:01''"]
    by (simp only: e option.case)
qed

section \<open>Claim C2\<close>

text \<open>
  C2, as stated: with a bucket configured, a local write that succeeds and an upload that
  raises, \<open>save_content\<close> still returns success. The source returns \<open>False\<close> from
  the \<open>except\<close> branch of the upload (line 60), although the local file was written.
\<close>

theorem C2_counterexample:
  "fst (save_content (no_faults\<lparr>gcs_write_fails := (\<lambda>_. True)\<rparr>)
          (empty_storage\<lparr>bucket := True\<rparr>) ''scrapers/a_com.py'' ''x'') = False
   \<and> local_files (snd (save_content (no_faults\<lparr>gcs_write_fails := (\<lambda>_. True)\<rparr>)
          (empty_storage\<lparr>bucket := True\<rparr>) ''scrapers/a_com.py'' ''x''))
       = [(''scrapers/a_com.py'', ''x'')]"
  by (simp add: save_content_def write_local_def no_faults_def empty_storage_def local_repository_def)

text \<open>
  C2, amended: \<open>save_content\<close> never raises. With a bucket configured its result is
  whether the upload succeeded: a failed upload is logged and gives \<open>False\<close>, also
  after a local write that succeeded. Without a bucket the result is whether the local
  write succeeded. A local write that succeeds leaves the content in the local file
  whatever the result, and a \<open>True\<close> result with a bucket means the blob holds it.
\<close>

theorem C2_save_content_result:
  "fst (save_content F st path content) =
     (if bucket st then \<not> gcs_write_fails F path else \<not> local_write_fails F path)
   \<and> (\<not> local_write_fails F path \<longrightarrow>
        map_of (local_files (snd (save_content F st path content))) path = Some content)
   \<and> (fst (save_content F st path content) \<and> bucket st \<longrightarrow>
        map_of (blobs (snd (save_content F st path content))) path = Some content)"
  by (simp add: save_content_def Let_def map_of_put_file write_local_simps)

theorem C2_save_content_result_witness:
  "fst (save_content (no_faults\<lparr>gcs_write_fails := (\<lambda>_. True)\<rparr>)
          (empty_storage\<lparr>bucket := True\<rparr>) ''scrapers/a_com.py'' ''x'') = False
   \<and> map_of (local_files (snd (save_content (no_faults\<lparr>gcs_write_fails := (\<lambda>_. True)\<rparr>)
          (empty_storage\<lparr>bucket := True\<rparr>) ''scrapers/a_com.py'' ''x'')))
        ''scrapers/a_com.py'' = Some ''x''
   \<and> fst (save_content no_faults (empty_storage\<lparr>bucket := True\<rparr>) ''scrapers/a_com.py'' ''x'')
   \<and> map_of (blobs (snd (save_content no_faults
          (empty_storage\<lparr>bucket := True\<rparr>) ''scrapers/a_com.py'' ''x'')))
        ''scrapers/a_com.py'' = Some ''x''"
  using C2_save_content_result [of "no_faults\<lparr>gcs_write_fails := (\<lambda>_. True)\<rparr>"
          "empty_storage\<lparr>bucket := True\<rparr>" "''scrapers/a_com.py''" "''x''"]
        C2_save_content_result [of no_faults
          "empty_storage\<lparr>bucket := True\<rparr>" "''scrapers/a_com.py''" "''x''"]
  by (simp add: no_faults_def empty_storage_def local_repository_def)


section \<open>Claim C3\<close>






section \<open>Claim C8\<close>











section \<open>Claim C10\<close>

lemma netloc_a_dot_b: "urlparse_netloc example_lib ''https://a.b/x'' = Some ''a.b''"
  by (simp add: example_lib_def urlsplit_netloc_def strip_scheme_def Let_def
        ascii_alpha_def scheme_char_def ascii_alnum_def)

lemma netloc_a_underscore_b: "urlparse_netloc example_lib ''https://a_b/x'' = Some ''a_b''"
  by (simp add: example_lib_def urlsplit_netloc_def strip_scheme_def Let_def
        ascii_alpha_def scheme_char_def ascii_alnum_def)

text \<open>
  C10, as stated: two domains with the same key share their paths, saving for one
  overwrites the other's artifact, and \<open>get_scraper\<close> for either domain returns
  whichever code was saved last. The first two parts hold. The last does not hold in
  every state: the loader trusts cached bytecode that carries the modification second and
  size of the source, so after the scraper of \<open>a.b\<close> was saved and loaded, saving a code
  of the same size for \<open>a_b\<close> within that second leaves \<open>get_scraper\<close> returning
  the first code for both domains.
\<close>

theorem C10_counterexample:
  "fst (get_scraper example_lib no_faults
         (snd (save_scraper example_lib no_faults
            (snd (get_scraper example_lib no_faults
               (snd (save_scraper example_lib no_faults empty_storage
                  ''def scrape(url): return dict(title=1)'' ''https://a.b/x'' JNull None
                  ''single'' ''2023-11-14T22:13:20'' ''2023-11-14T22:13:20''))
               ''a.b''))
            ''def scrape(url): return dict(title=2)'' ''https://a_b/x'' JNull None
            ''single'' ''2023-11-14T22:13:20'' ''2023-11-14T22:13:20''))
         ''a_b'')
     = Inr ''def scrape(url): return dict(title=1)''"
proof -
  let ?one = "''def scrape(url): return dict(title=1)''"
  let ?two = "''def scrape(url): return dict(title=2)''"
  define p where "p = ''scrapers/'' @ (replace_dots ''a.b'' @ ''.py'')"
  have pp: "''scrapers/'' @ (replace_dots ''a_b'' @ ''.py'') = p"
    by (simp add: p_def replace_dots_def)
  define stA where "stA = snd (save_scraper example_lib no_faults empty_storage ?one
     ''https://a.b/x'' JNull None ''single'' ''2023-11-14T22:13:20'' ''2023-11-14T22:13:20'')"
  define stB where "stB = snd (get_scraper example_lib no_faults stA ''a.b'')"
  define stC where "stC = snd (save_scraper example_lib no_faults stB ?two
     ''https://a_b/x'' JNull None ''single'' ''2023-11-14T22:13:20'' ''2023-11-14T22:13:20'')"
  have f: "\<not> local_write_fails no_faults p" "\<not> gcs_write_fails no_faults p"
          "\<not> local_read_fails no_faults p" "\<not> pyc_write_fails no_faults p"
    by (simp_all add: no_faults_def)
  have c: "\<not> compile_fails example_lib ?one"
    by (simp add: example_lib_def)
  note a = save_scraper_holds [OF netloc_a_dot_b f(1,2) [unfolded p_def], of empty_storage ?one
             JNull None "''2023-11-14T22:13:20''" "''2023-11-14T22:13:20''", folded stA_def p_def]
  have na: "map_of (pycache stA) p = None"
    using a(2) by (simp add: empty_storage_def local_repository_def)
  note b = holds_get_scraper_state [of stA "''a.b''" ?one no_faults example_lib,
             folded p_def stB_def, OF a(1) f(3) c na f(4)]
  note d = save_scraper_holds [OF netloc_a_underscore_b f(1,2) [folded pp], of stB ?two
             JNull None "''2023-11-14T22:13:20''" "''2023-11-14T22:13:20''", folded stC_def, unfolded pp]
  have s: "stamp (clock stC) ?two = stamp (clock stA) ?one"
    using b(3) d(3) by (simp add: stamp_def utf8_size_def)
  have pc: "map_of (pycache stC) p = Some (stamp (clock stC) ?two, ?one)"
    using b(1) d(2) s by simp
  have "fst (get_scraper example_lib no_faults stC ''a_b'') = run_module example_lib (''scraper_'' @ ''a_b'') ?one"
    using d(1) f(3) pc unfolding pp [symmetric] by (rule stale_get_scraper)
  then show ?thesis
    unfolding stC_def stB_def stA_def by (simp only: example_imports)
qed

text \<open>
  C10, amended: \<open>domain_to_filename\<close> replaces every dot by an underscore and changes
  nothing else, so it is not injective (\<open>a.b\<close> and \<open>a_b\<close> share a key). Two domains
  with the same key get the same code and metadata paths, so saving for the second
  overwrites the file saved for the first, and \<open>get_scraper\<close> loads that one file for
  either domain: it runs and returns the code saved last (or raises what its top-level
  code raises) whenever that code compiles and the bytecode cache is fresh for the file,
  that is, holds no bytecode of other code with the modification second and size of the
  newly written file.
\<close>

theorem C10_key_collision:
  assumes "urlparse_netloc L url1 = Some d1"
    and "urlparse_netloc L url2 = Some d2"
    and "domain_to_filename d1 = domain_to_filename d2"
    and "\<not> local_write_fails F (''scrapers/'' @ domain_to_filename d2 @ ''.py'')"
    and "\<not> gcs_write_fails F (''scrapers/'' @ domain_to_filename d2 @ ''.py'')"
    and "\<not> local_read_fails F (''scrapers/'' @ domain_to_filename d2 @ ''.py'')"
    and "\<not> compile_fails L code2"
    and "fresh_bytecode st (''scrapers/'' @ domain_to_filename d2 @ ''.py'') (clock st) code2"
    and "st1 = snd (save_scraper L F st code1 url1 selectors1 site_name1 ''single'' now1 now2)"
    and "st2 = snd (save_scraper L F st1 code2 url2 selectors2 site_name2 ''single'' now3 now4)"
  shows "domain_to_filename ''a.b'' = domain_to_filename ''a_b'' \<and> ''a.b'' \<noteq> ''a_b''
       \<and> domain_to_filename d1 = map (\<lambda>c. if c = CHR ''.'' then CHR ''_'' else c) d1
       \<and> (\<forall>ty. ''scrapers/'' @ filename_base d1 ty @ ''.py'' = ''scrapers/'' @ filename_base d2 ty @ ''.py''
               \<and> ''metadata/'' @ filename_base d1 ty @ ''.json'' = ''metadata/'' @ filename_base d2 ty @ ''.json'')
       \<and> fst (save_scraper L F st code1 url1 selectors1 site_name1 ''single'' now1 now2)
           = Inr \<lparr>scraper_path = ''scrapers/'' @ domain_to_filename d2 @ ''.py'',
                  metadata_path = ''metadata/'' @ domain_to_filename d2 @ ''.json'', saved_domain = d1\<rparr>
       \<and> fst (save_scraper L F st1 code2 url2 selectors2 site_name2 ''single'' now3 now4)
           = Inr \<lparr>scraper_path = ''scrapers/'' @ domain_to_filename d2 @ ''.py'',
                  metadata_path = ''metadata/'' @ domain_to_filename d2 @ ''.json'', saved_domain = d2\<rparr>
       \<and> map_of (local_files st1) (''scrapers/'' @ domain_to_filename d2 @ ''.py'') = Some code1
       \<and> map_of (local_files st2) (''scrapers/'' @ domain_to_filename d2 @ ''.py'') = Some code2
       \<and> fst (get_scraper L F st2 d1)
           = (case exec_raises L (''scraper_'' @ d1) code2 of None \<Rightarrow> Inr code2 | Some e \<Rightarrow> Inl e)
       \<and> fst (get_scraper L F st2 d2)
           = (case exec_raises L (''scraper_'' @ d2) code2 of None \<Rightarrow> Inr code2 | Some e \<Rightarrow> Inl e)"
proof -
  have k: "replace_dots d1 = replace_dots d2"
    using assms(3) by (simp add: domain_to_filename_def)
  have w: "\<not> local_write_fails F (''scrapers/'' @ (replace_dots d1 @ ''.py''))"
          "\<not> gcs_write_fails F (''scrapers/'' @ (replace_dots d1 @ ''.py''))"
          "\<not> local_write_fails F (''scrapers/'' @ (replace_dots d2 @ ''.py''))"
          "\<not> gcs_write_fails F (''scrapers/'' @ (replace_dots d2 @ ''.py''))"
          "\<not> local_read_fails F (''scrapers/'' @ (replace_dots d2 @ ''.py''))"
    using assms(4,5,6) k by (simp_all add: domain_to_filename_def)
  note h1 = save_scraper_holds [OF assms(1) w(1,2), of st code1 selectors1 site_name1 now1 now2,
              folded assms(9)]
  note h2 = save_scraper_holds [OF assms(2) w(3,4), of st1 code2 selectors2 site_name2 now3 now4,
              folded assms(10)]
  have fr: "fresh_bytecode st2 (''scrapers/'' @ (replace_dots d2 @ ''.py'')) (clock st2) code2"
    using assms(8) h1(2,3) h2(2,3) by (simp add: fresh_bytecode_def domain_to_filename_def)
  have g2: "fst (get_scraper L F st2 d2) = run_module L (''scraper_'' @ d2) code2"
    using h2(1) w(5) assms(7) fr by (rule holds_get_scraper)
  have g1: "fst (get_scraper L F st2 d1) = run_module L (''scraper_'' @ d1) code2"
    using h2(1) w(5) assms(7) fr unfolding k [symmetric] by (rule holds_get_scraper)
  have l1: "map_of (local_files st1) (''scrapers/'' @ (replace_dots d2 @ ''.py'')) = Some code1"
    using h1(1) by (simp add: holds_def k)
  have l2: "map_of (local_files st2) (''scrapers/'' @ (replace_dots d2 @ ''.py'')) = Some code2"
    using h2(1) by (simp add: holds_def)
  show ?thesis
    using g1 g2 l1 l2 k assms(1,2)
    by (simp add: domain_to_filename_def replace_dots_def filename_base_def save_scraper_def
          Let_def run_module_def)
qed

theorem C10_key_collision_witness:
  "domain_to_filename ''a.b'' = domain_to_filename ''a_b''
   \<and> fst (get_scraper example_lib no_faults
        (snd (save_scraper example_lib no_faults
           (snd (save_scraper example_lib no_faults empty_storage ''def scrape(url): return {}''
                   ''https://a.b/x'' JNull None ''single'' ''t1'' ''t2''))
           ''def scrape(url): return {1: []}'' ''https://a_b/x'' JNull None ''single'' ''t3'' ''t4''))
        ''a.b'') = Inr ''def scrape(url): return {1: []}''
   \<and> fst (get_scraper example_lib no_faults
        (snd (save_scraper example_lib no_faults
           (snd (save_scraper example_lib no_faults empty_storage ''def scrape(url): return {}''
                   ''https://a.b/x'' JNull None ''single'' ''t1'' ''t2''))
           ''def scrape(url): return {1: []}'' ''https://a_b/x'' JNull None ''single'' ''t3'' ''t4''))
        ''a_b'') = Inr ''def scrape(url): return {1: []}''"
proof -
  let ?p = "''scrapers/'' @ domain_to_filename ''a_b'' @ ''.py''"
  have k: "domain_to_filename ''a.b'' = domain_to_filename ''a_b''"
    by (simp add: domain_to_filename_def replace_dots_def)
  have f: "\<not> local_write_fails no_faults ?p" "\<not> gcs_write_fails no_faults ?p"
          "\<not> local_read_fails no_faults ?p"
    by (simp_all add: no_faults_def)
  have c: "\<not> compile_fails example_lib ''def scrape(url): return {1: []}''"
    by (simp add: example_lib_def)
  have fr: "fresh_bytecode empty_storage ?p (clock empty_storage) ''def scrape(url): return {1: []}''"
    by (simp add: fresh_bytecode_def empty_storage_def local_repository_def)
  have e: "exec_raises example_lib name ''def scrape(url): return {1: []}'' = None" for name
    by (simp add: example_lib_def example_sources_def)
  note w = C10_key_collision [OF netloc_a_dot_b netloc_a_underscore_b k f c fr refl refl,
             of "''def scrape(url): return {}''" JNull None "''t1''" "''t2''" JNull None "''t3''" "''t4''"]
  show ?thesis
    using w k by (simp only: e option.case)
qed


section \<open>Claim C7\<close>

lemma tok_of_plain: "\<not> re_special c \<Longrightarrow> tok_of c = TAtom (Lit c) \<and> c \<noteq> CHR 0x5C"
  by (auto simp: re_special_def tok_of_def)

lemma special_not_alnum: "re_special c \<Longrightarrow> \<not> ascii_alnum c"
  by (auto simp: re_special_def ascii_alnum_def)

lemma re_tokens_escape:
  "re_tokens (re_escape d @ rest) = map (\<lambda>c. TAtom (Lit c)) d @ re_tokens rest"
  by (induction d) (auto simp: tok_of_plain special_not_alnum)

lemma re_items_lits:
  "re_items (map (\<lambda>c. TAtom (Lit c)) d @ TAtom a # ts) =
     map_option (\<lambda>r. map (\<lambda>c. (Lit c, Once)) d @ r) (re_items (TAtom a # ts))"
proof (induction d)
  case Nil
  show ?case by (simp add: option.map_ident)
next
  case (Cons c cs)
  then show ?case
    by (cases cs) (simp_all add: option.map_comp comp_def)
qed

lemma items_match_lits:
  "items_match (map (\<lambda>c. (Lit c, Once)) d @ r) s =
     (startswith s d \<and> items_match r (drop (length d) s))"
proof (induction d arbitrary: s)
  case Nil
  show ?case by (simp add: startswith_def)
next
  case (Cons c cs)
  show ?case
    by (cases s) (auto simp: Cons startswith_def)
qed

lemma items_match_any_star: "items_match [(AnyChar, Star)] s"
  by (induction s) auto

lemma items_match_opt:
  "items_match ((Lit c, Opt) # r) s =
     ((startswith s [c] \<and> items_match r (drop 1 s)) \<or> items_match r s)"
  by (cases s) (auto simp: startswith_def)

lemma startswith_append:
  "startswith s (a @ b) = (startswith s a \<and> startswith (drop (length a) s) b)"
proof (induction a arbitrary: s)
  case Nil
  show ?case by (simp add: startswith_def)
next
  case (Cons c cs)
  show ?case
    using Cons [of "tl s"] by (cases s) (auto simp: startswith_def)
qed

lemma pattern_items:
  "re_items (re_tokens (''https?://'' @ re_escape d @ ''/.*'')) =
     Some (map (\<lambda>c. (Lit c, Once)) ''http'' @ (Lit CHR ''s'', Opt)
           # map (\<lambda>c. (Lit c, Once)) (''://'' @ d @ ''/'') @ [(AnyChar, Star)])"
proof -
  have t: "re_tokens (''https?://'' @ re_escape d @ ''/.*'') =
           map (\<lambda>c. TAtom (Lit c)) ''http'' @ TAtom (Lit CHR ''s'') # TOpt
           # map (\<lambda>c. TAtom (Lit c)) (''://'' @ d) @ [TAtom (Lit CHR ''/''), TAtom AnyChar, TStar]"
    by (simp add: re_tokens_escape tok_of_def)
  have "re_items (map (\<lambda>c. TAtom (Lit c)) (''://'' @ d) @ TAtom (Lit CHR ''/'') # [TAtom AnyChar, TStar]) =
        Some (map (\<lambda>c. (Lit c, Once)) (''://'' @ d) @ [(Lit CHR ''/'', Once), (AnyChar, Star)])"
    by (simp only: re_items_lits) simp
  then show ?thesis
    unfolding t by simp
qed

lemma url_pattern_matches:
  "fragment_re_match (''https?://'' @ re_escape d @ ''/.*'') s =
     Some (startswith s (''http://'' @ d @ ''/'') \<or> startswith s (''https://'' @ d @ ''/''))"
proof -
  have a: "startswith s (''http://'' @ d @ ''/'') =
           (startswith s ''http'' \<and> startswith (drop 4 s) (''://'' @ d @ ''/''))"
    using startswith_append [of s "''http''" "''://'' @ d @ ''/''"] by (simp add: eval_nat_numeral)
  have b: "startswith s (''https://'' @ d @ ''/'') =
           (startswith s ''http'' \<and> startswith (drop 4 s) ''s''
             \<and> startswith (drop 1 (drop 4 s)) (''://'' @ d @ ''/''))"
    using startswith_append [of s "''http''" "''s'' @ ''://'' @ d @ ''/''"]
          startswith_append [of "drop 4 s" "''s''" "''://'' @ d @ ''/''"] by (simp add: eval_nat_numeral)
  have "items_match (map (\<lambda>c. (Lit c, Once)) ''http'' @ (Lit CHR ''s'', Opt)
           # map (\<lambda>c. (Lit c, Once)) (''://'' @ d @ ''/'') @ [(AnyChar, Star)]) s =
        (startswith s (''http://'' @ d @ ''/'') \<or> startswith s (''https://'' @ d @ ''/''))"
    unfolding a b
    by (simp only: items_match_lits items_match_opt items_match_any_star) (auto simp: eval_nat_numeral)
  then show ?thesis
    by (simp only: fragment_re_match_def pattern_items) simp
qed


lemma example_com_netloc: "urlparse_netloc example_lib ''https://example.com'' = Some ''example.com''"
  by (simp add: example_lib_def urlsplit_netloc_def strip_scheme_def Let_def
        ascii_alpha_def scheme_char_def ascii_alnum_def)

lemma save_scraper_metadata:
  assumes "urlparse_netloc L url = Some d"
    and "\<not> local_write_fails F (''metadata/'' @ filename_base d scraper_type @ ''.json'')"
  shows "map_of (local_files (snd (save_scraper L F st code url selectors site_name scraper_type now1 now2)))
           (''metadata/'' @ filename_base d scraper_type @ ''.json'')
         = Some (json_dumps L (build_metadata d url selectors site_name scraper_type now1 now2))"
  using assms by (simp add: save_scraper_def Let_def save_content_def map_of_put_file write_local_simps)

text \<open>
  C7, as stated: the stored \<open>url_pattern\<close> matches the \<open>example_url\<close> it was
  written with. The pattern is \<open>https?://\<close>, the escaped domain, \<open>/.*\<close> (line 66):
  it needs a slash after the domain, so the metadata written for \<open>https://example.com\<close>
  has a pattern that does not match that URL.
\<close>

theorem C7_counterexample:
  "urlparse_netloc example_lib ''https://example.com'' = Some ''example.com''
   \<and> map_of (local_files (snd (save_scraper example_lib no_faults empty_storage ''code''
         ''https://example.com'' JNull None ''single'' ''t1'' ''t2''))) ''metadata/example_com.json''
       = Some (json_dumps example_lib
           (build_metadata ''example.com'' ''https://example.com'' JNull None ''single'' ''t1'' ''t2''))
   \<and> dict_get (build_metadata ''example.com'' ''https://example.com'' JNull None ''single'' ''t1'' ''t2'')
         ''url_pattern'' JNull = Inr (JStr (''https?://example'' @ [CHR 0x5C] @ ''.com/.*''))
   \<and> dict_get (build_metadata ''example.com'' ''https://example.com'' JNull None ''single'' ''t1'' ''t2'')
         ''example_url'' JNull = Inr (JStr ''https://example.com'')
   \<and> fragment_re_match (''https?://example'' @ [CHR 0x5C] @ ''.com/.*'') ''https://example.com'' = Some False"
proof -
  have m: "map_of (local_files (snd (save_scraper example_lib no_faults empty_storage ''code''
         ''https://example.com'' JNull None ''single'' ''t1'' ''t2''))) ''metadata/example_com.json''
       = Some (json_dumps example_lib
           (build_metadata ''example.com'' ''https://example.com'' JNull None ''single'' ''t1'' ''t2''))"
    using save_scraper_metadata [OF example_com_netloc, of no_faults "''single''"]
    by (simp add: no_faults_def filename_base_def domain_to_filename_def replace_dots_def)
  have p: "''https?://example'' @ [CHR 0x5C] @ ''.com/.*'' = ''https?://'' @ re_escape ''example.com'' @ ''/.*''"
    by (simp add: re_special_def)
  have r: "fragment_re_match (''https?://example'' @ [CHR 0x5C] @ ''.com/.*'') ''https://example.com'' = Some False"
    unfolding p url_pattern_matches by (simp add: startswith_def)
  show ?thesis
    using m r example_com_netloc by (simp add: build_metadata_def re_special_def)
qed

text \<open>
  C7, amended: in the metadata written by \<open>save_scraper\<close> the stored domain is the
  network location \<open>urlparse\<close> gives for the example URL, and the stored pattern is
  \<open>https?://\<close>, the escaped domain, \<open>/.*\<close>. Under \<open>re.match\<close> this pattern
  matches exactly the strings that start with \<open>http://\<close> or \<open>https://\<close>, the
  domain and a slash; so it matches the example URL when the URL has that form, and not
  otherwise.
\<close>

theorem C7_metadata_pattern:
  assumes "urlparse_netloc L url = Some d"
    and "\<not> local_write_fails F (''metadata/'' @ filename_base d scraper_type @ ''.json'')"
    and "m = build_metadata d url selectors site_name scraper_type now1 now2"
  shows "map_of (local_files (snd (save_scraper L F st code url selectors site_name scraper_type now1 now2)))
           (''metadata/'' @ filename_base d scraper_type @ ''.json'') = Some (json_dumps L m)
       \<and> dict_get m ''domain'' JNull = Inr (JStr d)
       \<and> dict_get m ''example_url'' JNull = Inr (JStr url)
       \<and> dict_get m ''url_pattern'' JNull = Inr (JStr (''https?://'' @ re_escape d @ ''/.*''))
       \<and> (\<forall>s. fragment_re_match (''https?://'' @ re_escape d @ ''/.*'') s =
               Some (startswith s (''http://'' @ d @ ''/'') \<or> startswith s (''https://'' @ d @ ''/'')))"
  using save_scraper_metadata [OF assms(1,2)] url_pattern_matches
  by (simp add: assms(3) build_metadata_def)

theorem C7_metadata_pattern_witness:
  "map_of (local_files (snd (save_scraper example_lib no_faults empty_storage ''code''
         ''https://example.org/a'' JNull None ''single'' ''t1'' ''t2''))) ''metadata/example_org.json''
       = Some (json_dumps example_lib
           (build_metadata ''example.org'' ''https://example.org/a'' JNull None ''single'' ''t1'' ''t2''))
   \<and> dict_get (build_metadata ''example.org'' ''https://example.org/a'' JNull None ''single'' ''t1'' ''t2'')
        ''domain'' JNull = Inr (JStr ''example.org'')
   \<and> fragment_re_match (''https?://'' @ re_escape ''example.org'' @ ''/.*'') ''https://example.org/a'' = Some True
   \<and> fragment_re_match (''https?://'' @ re_escape ''example.org'' @ ''/.*'') ''https://example.org'' = Some False"
proof -
  note w = C7_metadata_pattern [OF example_netloc, of no_faults "''single''" _ JNull None "''t1''" "''t2''"
             empty_storage "''code''", OF _ refl]
  have a: "fragment_re_match (''https?://'' @ re_escape ''example.org'' @ ''/.*'') ''https://example.org/a'' = Some True"
    using w by (simp add: no_faults_def startswith_def)
  have b: "fragment_re_match (''https?://'' @ re_escape ''example.org'' @ ''/.*'') ''https://example.org'' = Some False"
    using w by (simp add: no_faults_def startswith_def)
  show ?thesis
    using w a b 
    by (simp add: no_faults_def filename_base_def domain_to_filename_def replace_dots_def)
qed


section \<open>Claim C6\<close>

lemma broken_listing: "list_files (set_to_list example_lib) no_faults broken_pipeline_storage ''metadata/''
   = [''metadata/a_com_list.json'', ''metadata/a_com_content.json'']"
  by (simp add: list_files_def example_lib_def broken_pipeline_storage_def local_repository_def startswith_def)

lemma loads_list: \<open>json_loads example_lib ''{"domain": "a.com", "scraper_type": "list"}''
   = Some (JObj [(''domain'', JStr ''a.com''), (''scraper_type'', JStr ''list'')])\<close>
  by (simp add: example_lib_def example_table_def)

lemma loads_corrupt: \<open>json_loads example_lib ''{"domain": "a.com", "scraper_ty'' = None\<close>
  by (simp add: example_lib_def example_table_def meta_text_def nl_def)

text \<open>
  C6: a metadata entry that does not parse is skipped by every bulk scan and is never
  fatal. \<open>list_scrapers\<close> and the scan of \<open>get_scraper_for_url\<close> catch the parse
  error, and so does the first \<open>json.loads\<close> of \<open>list_scraper_pipelines\<close>; its
  second one, for the content metadata (line 245), is outside any \<open>try\<close>. On the
  repository below, whose content metadata is truncated, \<open>list_scraper_pipelines\<close>
  raises \<open>JSONDecodeError\<close>, while \<open>list_scrapers\<close> skips the same file.
\<close>

theorem C6_corrupt_content_metadata:
  "fst (list_scraper_pipelines example_lib no_faults broken_pipeline_storage) = Inl JSONDecodeError
   \<and> fst (list_scrapers example_lib no_faults broken_pipeline_storage)
       = [JObj [(''domain'', JStr ''a.com''), (''scraper_type'', JStr ''list'')]]"
  apply (simp add: list_scraper_pipelines_def list_scrapers_def broken_listing)
  apply (simp add: broken_pipeline_storage_def local_repository_def read_content_def read_local_def no_faults_def endswith_def
      loads_list loads_corrupt has_scraper_pipeline_def exists_path_def replace_dots_def)
  done

section \<open>Claim C9\<close>

lemma dict_setitem_other: "k' \<noteq> k \<Longrightarrow> map_of (dict_setitem k v kvs) k' = map_of kvs k'"
  by (induction kvs) auto

lemma dict_setitem_same: "map_of (dict_setitem k v kvs) k = Some v"
  by (induction kvs) auto

lemma dict_setitem_keys:
  "filter (\<lambda>x. x \<noteq> k) (map fst (dict_setitem k v kvs)) = filter (\<lambda>x. x \<noteq> k) (map fst kvs)"
  by (induction kvs) auto

lemma dict_setitem_twice: "dict_setitem k v2 (dict_setitem k v1 kvs) = dict_setitem k v2 kvs"
  by (induction kvs) auto

lemma read_after_save:
  "\<not> local_write_fails F p \<Longrightarrow> \<not> gcs_write_fails F p \<Longrightarrow> \<not> local_read_fails F p \<Longrightarrow>
   fst (read_content F (snd (save_content F st p c)) p) = Some c"
  by (simp add: read_content_def save_content_def read_local_def Let_def map_of_put_file write_local_simps)

lemma save_frame:
  "q \<noteq> p \<Longrightarrow> map_of (local_files (snd (save_content F st p c))) q = map_of (local_files st) q
     \<and> map_of (blobs (snd (save_content F st p c))) q = map_of (blobs st) q"
  by (simp add: save_content_def Let_def map_of_put_file write_local_simps)

lemma read_frame:
  "q \<noteq> p \<Longrightarrow> map_of (local_files (snd (read_content F st p))) q = map_of (local_files st) q
     \<and> blobs (snd (read_content F st p)) = blobs st"
  by (simp add: read_content_def save_local_cache_def map_of_put_file write_local_simps split: option.splits)

lemma read_blobs: "blobs (snd (read_content F st p)) = blobs st"
  by (simp add: read_content_def save_local_cache_def write_local_simps split: option.splits)

lemma read_none: "fst (read_content F st p) = None \<Longrightarrow> read_content F st p = (None, st)"
  by (auto simp: read_content_def split: option.splits if_splits)

lemma touch_absent:
  "fst (read_content F st (''metadata/'' @ domain_to_filename domain @ ''.json'')) = None \<Longrightarrow>
   update_scraper_validation L F st domain now = (LogWarning, st)"
  by (simp add: update_scraper_validation_def read_none)

lemma touch_once:
  assumes "p = ''metadata/'' @ domain_to_filename domain @ ''.json''"
    and "\<not> local_write_fails F p" "\<not> gcs_write_fails F p" "\<not> local_read_fails F p"
    and "fst (read_content F st p) = Some content" "content \<noteq> []"
    and "json_loads L content = Some (JObj kvs)"
  shows "fst (update_scraper_validation L F st domain now) = LogInfo
       \<and> fst (read_content F (snd (update_scraper_validation L F st domain now)) p)
           = Some (json_dumps L (JObj (dict_setitem ''last_validated'' (JStr now) kvs)))
       \<and> (\<forall>q. q \<noteq> p \<longrightarrow>
             map_of (local_files (snd (update_scraper_validation L F st domain now))) q = map_of (local_files st) q
           \<and> map_of (blobs (snd (update_scraper_validation L F st domain now))) q = map_of (blobs st) q)"
proof -
  obtain st' where r: "read_content F st p = (Some content, st')"
    using assms(5) by (cases "read_content F st p") auto
  have st': "st' = snd (read_content F st p)" using r by simp
  have u: "update_scraper_validation L F st domain now =
        (LogInfo, snd (save_content F st' p (json_dumps L (JObj (dict_setitem ''last_validated'' (JStr now) kvs)))))"
    using r assms(1,6,7) by (simp add: update_scraper_validation_def)
  show ?thesis
    unfolding u using assms(2,3,4)
    by (simp add: read_after_save save_frame st' read_frame)
qed

text \<open>
  C9: when the metadata of a domain is absent, \<open>update_scraper_validation\<close> logs a
  warning and leaves the storage as it is. When it is there and parses to an object, the
  call rewrites it as the same object with \<open>last_validated\<close> set to the new timestamp:
  every other key keeps its value and the keys keep their order, and no other path of
  the storage changes. A second call, reading back what the first wrote, again changes
  \<open>last_validated\<close> only. The writes and the local read of the metadata path are taken
  not to raise, and \<open>json.loads\<close> to read back what \<open>json.dumps\<close> wrote.
\<close>

theorem C9_touch_validated:
  assumes "p = ''metadata/'' @ domain_to_filename domain @ ''.json''"
    and "\<not> local_write_fails F p" "\<not> gcs_write_fails F p" "\<not> local_read_fails F p"
    and "kvs1 = dict_setitem ''last_validated'' (JStr now1) kvs"
    and "kvs2 = dict_setitem ''last_validated'' (JStr now2) kvs"
    and "st1 = snd (update_scraper_validation L F st domain now1)"
    and "st2 = snd (update_scraper_validation L F st1 domain now2)"
  shows "(fst (read_content F st p) = None \<longrightarrow>
            update_scraper_validation L F st domain now1 = (LogWarning, st))
       \<and> (fst (read_content F st p) = Some content \<and> content \<noteq> [] \<and> json_loads L content = Some (JObj kvs) \<longrightarrow>
            fst (update_scraper_validation L F st domain now1) = LogInfo
          \<and> fst (read_content F st1 p) = Some (json_dumps L (JObj kvs1))
          \<and> map_of kvs1 ''last_validated'' = Some (JStr now1)
          \<and> (\<forall>k. k \<noteq> ''last_validated'' \<longrightarrow> map_of kvs1 k = map_of kvs k)
          \<and> filter (\<lambda>k. k \<noteq> ''last_validated'') (map fst kvs1)
               = filter (\<lambda>k. k \<noteq> ''last_validated'') (map fst kvs)
          \<and> (\<forall>q. q \<noteq> p \<longrightarrow> map_of (local_files st1) q = map_of (local_files st) q
                              \<and> map_of (blobs st1) q = map_of (blobs st) q)
          \<and> (json_dumps L (JObj kvs1) \<noteq> [] \<and> json_loads L (json_dumps L (JObj kvs1)) = Some (JObj kvs1) \<longrightarrow>
                fst (update_scraper_validation L F st1 domain now2) = LogInfo
              \<and> fst (read_content F st2 p) = Some (json_dumps L (JObj kvs2))
              \<and> map_of kvs2 ''last_validated'' = Some (JStr now2)
              \<and> (\<forall>k. k \<noteq> ''last_validated'' \<longrightarrow> map_of kvs2 k = map_of kvs k)
              \<and> filter (\<lambda>k. k \<noteq> ''last_validated'') (map fst kvs2)
                   = filter (\<lambda>k. k \<noteq> ''last_validated'') (map fst kvs)
              \<and> (\<forall>q. q \<noteq> p \<longrightarrow> map_of (local_files st2) q = map_of (local_files st) q
                                  \<and> map_of (blobs st2) q = map_of (blobs st) q)))"
proof (intro conjI impI)
  assume "fst (read_content F st p) = None"
  then show "update_scraper_validation L F st domain now1 = (LogWarning, st)"
    unfolding assms(1) by (rule touch_absent)
next
  assume a: "fst (read_content F st p) = Some content \<and> content \<noteq> [] \<and> json_loads L content = Some (JObj kvs)"
  note t1 = touch_once [OF assms(1,2,3,4), of st content L kvs now1, folded assms(5,7)]
  show "fst (update_scraper_validation L F st domain now1) = LogInfo" using a t1 by simp
  show r1: "fst (read_content F st1 p) = Some (json_dumps L (JObj kvs1))" using a t1 by simp
  show "map_of kvs1 ''last_validated'' = Some (JStr now1)" by (simp add: assms(5) dict_setitem_same)
  show "\<forall>k. k \<noteq> ''last_validated'' \<longrightarrow> map_of kvs1 k = map_of kvs k"
    by (simp add: assms(5) dict_setitem_other)
  show "filter (\<lambda>k. k \<noteq> ''last_validated'') (map fst kvs1) = filter (\<lambda>k. k \<noteq> ''last_validated'') (map fst kvs)"
    by (simp add: assms(5) dict_setitem_keys)
  show f1: "\<forall>q. q \<noteq> p \<longrightarrow> map_of (local_files st1) q = map_of (local_files st) q
                              \<and> map_of (blobs st1) q = map_of (blobs st) q"
    using a t1 by simp
  assume b: "json_dumps L (JObj kvs1) \<noteq> [] \<and> json_loads L (json_dumps L (JObj kvs1)) = Some (JObj kvs1)"
  have k: "dict_setitem ''last_validated'' (JStr now2) kvs1 = kvs2"
    by (simp add: assms(5,6) dict_setitem_twice)
  note t2 = touch_once [OF assms(1,2,3,4), of st1 "json_dumps L (JObj kvs1)" L kvs1 now2,
                 unfolded k, folded assms(8)]
  show "fst (update_scraper_validation L F st1 domain now2) = LogInfo" using b r1 t2 by simp
  show "fst (read_content F st2 p) = Some (json_dumps L (JObj kvs2))" using b r1 t2 by simp
  show "map_of kvs2 ''last_validated'' = Some (JStr now2)" by (simp add: assms(6) dict_setitem_same)
  show "\<forall>k. k \<noteq> ''last_validated'' \<longrightarrow> map_of kvs2 k = map_of kvs k"
    by (simp add: assms(6) dict_setitem_other)
  show "filter (\<lambda>k. k \<noteq> ''last_validated'') (map fst kvs2) = filter (\<lambda>k. k \<noteq> ''last_validated'') (map fst kvs)"
    by (simp add: assms(6) dict_setitem_keys)
  show "\<forall>q. q \<noteq> p \<longrightarrow> map_of (local_files st2) q = map_of (local_files st) q
                              \<and> map_of (blobs st2) q = map_of (blobs st) q"
    using b r1 t2 f1 by simp
qed


lemma example_loads_meta:
  "json_loads example_lib (meta_text ''2024-01-01T00:00:00'') = Some (meta_value ''2024-01-01T00:00:00'')"
  "json_loads example_lib (meta_text ''2024-02-02T00:00:00'') = Some (meta_value ''2024-02-02T00:00:00'')"
  by (simp_all add: example_lib_def example_table_def meta_text_def nl_def)

lemma example_dumps_meta:
  "json_dumps example_lib (meta_value ''2024-02-02T00:00:00'') = meta_text ''2024-02-02T00:00:00''"
  "json_dumps example_lib (meta_value ''2024-03-03T00:00:00'') = meta_text ''2024-03-03T00:00:00''"
  by (simp_all add: example_lib_def example_table_def meta_value_def)

lemma meta_text_nonempty: "meta_text t \<noteq> []"
  by (simp add: meta_text_def)

theorem C9_touch_validated_witness:
  "update_scraper_validation example_lib no_faults empty_storage ''a.com'' ''2024-02-02T00:00:00''
     = (LogWarning, empty_storage)
   \<and> fst (update_scraper_validation example_lib no_faults touch_storage ''a.com'' ''2024-02-02T00:00:00'') = LogInfo
   \<and> fst (read_content no_faults
        (snd (update_scraper_validation example_lib no_faults touch_storage ''a.com'' ''2024-02-02T00:00:00''))
        ''metadata/a_com.json'') = Some (meta_text ''2024-02-02T00:00:00'')
   \<and> fst (read_content no_faults
        (snd (update_scraper_validation example_lib no_faults
           (snd (update_scraper_validation example_lib no_faults touch_storage ''a.com'' ''2024-02-02T00:00:00''))
           ''a.com'' ''2024-03-03T00:00:00''))
        ''metadata/a_com.json'') = Some (meta_text ''2024-03-03T00:00:00'')"
proof -
  have p: "''metadata/a_com.json'' = ''metadata/'' @ domain_to_filename ''a.com'' @ ''.json''"
    by (simp add: domain_to_filename_def replace_dots_def)
  have f: "\<not> local_write_fails no_faults ''metadata/a_com.json''"
          "\<not> gcs_write_fails no_faults ''metadata/a_com.json''"
          "\<not> local_read_fails no_faults ''metadata/a_com.json''"
    by (simp_all add: no_faults_def)
  have r0: "fst (read_content no_faults empty_storage ''metadata/a_com.json'') = None"
    by (simp add: read_content_def read_local_def empty_storage_def local_repository_def no_faults_def)
  have r1: "fst (read_content no_faults touch_storage ''metadata/a_com.json'') = Some (meta_text ''2024-01-01T00:00:00'')"
    by (simp add: read_content_def read_local_def touch_storage_def local_repository_def no_faults_def)
  have l0: "json_loads example_lib (meta_text ''2024-01-01T00:00:00'')
              = Some (JObj [(''domain'', JStr ''a.com''), (''last_validated'', JStr ''2024-01-01T00:00:00'')])"
    using example_loads_meta(1) by (simp add: meta_value_def)
  note a = C9_touch_validated [where L = example_lib and st = empty_storage
             and ?now1.0 = "''2024-02-02T00:00:00''", OF p f refl refl refl refl]
  note b = C9_touch_validated [where L = example_lib and st = touch_storage
             and ?now1.0 = "''2024-02-02T00:00:00''" and ?now2.0 = "''2024-03-03T00:00:00''"
             and content = "meta_text ''2024-01-01T00:00:00''"
             and kvs = "[(''domain'', JStr ''a.com''), (''last_validated'', JStr ''2024-01-01T00:00:00'')]",
             OF p f refl refl refl refl]
  have a': "update_scraper_validation example_lib no_faults empty_storage ''a.com'' ''2024-02-02T00:00:00''
     = (LogWarning, empty_storage)"
    using a r0 by blast
  show ?thesis
    using b r1 l0 a' meta_text_nonempty
    by (simp add: example_dumps_meta [unfolded meta_value_def] example_loads_meta [unfolded meta_value_def])
qed


section \<open>Facts about reads and loads\<close>


lemma at_path_read_cong:
  assumes "at_path st' q = at_path st q"
  shows "fst (read_content F st' q) = fst (read_content F st q)"
    and "at_path (snd (read_content F st' q)) q = at_path (snd (read_content F st q)) q"
  using assms
  by (auto simp: at_path_def read_content_def read_local_def save_local_cache_def write_local_simps
        split: option.splits)


lemma at_path_load_cong:
  assumes "at_path st' q = at_path st q"
  shows "fst (load_module L F st' n q) = fst (load_module L F st n q)"
    and "at_path (snd (load_module L F st' n q)) q = at_path (snd (load_module L F st n q)) q"
  using assms
  by (auto simp: at_path_def load_module_def cached_code_def file_mtime_def map_of_put_file
        split: option.splits)

lemma at_path_read_other: "q \<noteq> p \<Longrightarrow> at_path (snd (read_content F st p)) q = at_path st q"
  by (simp add: at_path_def read_content_def save_local_cache_def write_local_simps
        split: option.splits)

lemma at_path_load_other: "q \<noteq> p \<Longrightarrow> at_path (snd (load_module L F st n p)) q = at_path st q"
  by (simp add: at_path_def load_module_def map_of_put_file split: option.splits)




lemma read_idem: "fst (read_content F (snd (read_content F st p)) p) = fst (read_content F st p)"
  by (auto simp: read_content_def read_local_def save_local_cache_def write_local_simps
        split: option.splits)


lemma get_scraper_unfold:
  "p = ''scrapers/'' @ (replace_dots d @ ''.py'') \<Longrightarrow>
   get_scraper L F st d =
     (case fst (read_content F st p) of
        None \<Rightarrow> (Inl (FileNotFoundError (''No scraper found for domain: '' @ d)), snd (read_content F st p))
      | Some c \<Rightarrow> load_module L F (snd (read_content F st p)) (''scraper_'' @ d) p)"
  unfolding get_scraper_def ensure_file_available_def Let_def
  by (cases "read_content F st p") (auto split: option.splits)


lemma read_after_read:
  "fst (read_content F (snd (read_content F st p)) q) = fst (read_content F st q)"
proof (cases "q = p")
  case True
  then show ?thesis by (simp add: read_idem)
next
  case False
  then show ?thesis by (intro at_path_read_cong(1) at_path_read_other)
qed










section \<open>Claim C4\<close>

lemma get_scraper_pipeline_unfold:
  assumes "lp = ''scrapers/'' @ replace_dots d @ ''_list.py''"
    and "cp = ''scrapers/'' @ replace_dots d @ ''_content.py''"
    and "s1 = snd (read_content F st lp)"
    and "s2 = snd (read_content F s1 cp)"
    and "s3 = snd (load_module L F s2 (''scraper_'' @ d @ ''_list'') lp)"
  shows "fst (get_scraper_pipeline L F st d) =
     (if fst (read_content F st lp) = None \<or> fst (read_content F s1 cp) = None
      then Inl (FileNotFoundError (''Incomplete pipeline for domain: '' @ d))
      else (case fst (load_module L F s2 (''scraper_'' @ d @ ''_list'') lp) of
              Inl e \<Rightarrow> Inl e
            | Inr l \<Rightarrow> (case fst (load_module L F s3 (''scraper_'' @ d @ ''_content'') cp) of
                         Inl e \<Rightarrow> Inl e
                       | Inr c \<Rightarrow> Inr (l, c))))"
proof -
  obtain r1 where a: "read_content F st lp = (r1, s1)"
    using assms(3) by (cases "read_content F st lp") simp
  obtain r2 where b: "read_content F s1 cp = (r2, s2)"
    using assms(4) by (cases "read_content F s1 cp") simp
  obtain r3 where c: "load_module L F s2 (''scraper_'' @ d @ ''_list'') lp = (r3, s3)"
    using assms(5) by (cases "load_module L F s2 (''scraper_'' @ d @ ''_list'') lp") simp
  obtain r4 s4 where e: "load_module L F s3 (''scraper_'' @ d @ ''_content'') cp = (r4, s4)"
    by (cases "load_module L F s3 (''scraper_'' @ d @ ''_content'') cp")
  show ?thesis
    unfolding get_scraper_pipeline_def ensure_file_available_def Let_def assms(1,2) [symmetric]
    using a b c e by (cases r1; cases r2; cases r3; cases r4; simp)
qed

lemma replace_dots_suffix:
  "replace_dots (d @ ''_list'') = replace_dots d @ ''_list''"
  "replace_dots (d @ ''_content'') = replace_dots d @ ''_content''"
  by (simp_all add: replace_dots_def)

lemma pipeline_unfolded:
  assumes "lp = ''scrapers/'' @ replace_dots d @ ''_list.py''"
    and "cp = ''scrapers/'' @ replace_dots d @ ''_content.py''"
  shows "fst (get_scraper_pipeline L F st d) =
     (if fst (read_content F st lp) = None \<or> fst (read_content F st cp) = None
      then Inl (FileNotFoundError (''Incomplete pipeline for domain: '' @ d))
      else (case fst (get_scraper L F st (d @ ''_list'')) of
              Inl e \<Rightarrow> Inl e
            | Inr l \<Rightarrow> (case fst (get_scraper L F st (d @ ''_content'')) of
                         Inl e \<Rightarrow> Inl e
                       | Inr c \<Rightarrow> Inr (l, c))))"
proof -
  define s1 where "s1 = snd (read_content F st lp)"
  define s2 where "s2 = snd (read_content F s1 cp)"
  define s3 where "s3 = snd (load_module L F s2 (''scraper_'' @ d @ ''_list'') lp)"
  define t1 where "t1 = snd (read_content F st cp)"
  have ne: "lp \<noteq> cp" "cp \<noteq> lp" by (simp_all add: assms)
  have r2: "fst (read_content F s1 cp) = fst (read_content F st cp)"
    unfolding s1_def by (rule read_after_read)
  have l1: "fst (load_module L F s2 n lp) = fst (load_module L F s1 n lp)" for n
    unfolding s2_def using ne by (intro at_path_load_cong(1) at_path_read_other)
  have "at_path s3 cp = at_path s2 cp"
    unfolding s3_def using ne by (intro at_path_load_other)
  moreover have "at_path s2 cp = at_path t1 cp"
    unfolding s2_def t1_def s1_def using ne by (intro at_path_read_cong(2) at_path_read_other)
  ultimately have l2: "fst (load_module L F s3 n cp) = fst (load_module L F t1 n cp)" for n
    by (intro at_path_load_cong(1)) simp
  have pl: "lp = ''scrapers/'' @ (replace_dots (d @ ''_list'') @ ''.py'')"
    and pc: "cp = ''scrapers/'' @ (replace_dots (d @ ''_content'') @ ''.py'')"
    by (simp_all add: assms replace_dots_suffix)
  have gl: "fst (get_scraper L F st (d @ ''_list'')) =
        (case fst (read_content F st lp) of
           None \<Rightarrow> Inl (FileNotFoundError (''No scraper found for domain: '' @ d @ ''_list''))
         | Some c \<Rightarrow> fst (load_module L F s1 (''scraper_'' @ d @ ''_list'') lp))"
    unfolding get_scraper_unfold [OF pl] s1_def by (simp split: option.splits)
  have gc: "fst (get_scraper L F st (d @ ''_content'')) =
        (case fst (read_content F st cp) of
           None \<Rightarrow> Inl (FileNotFoundError (''No scraper found for domain: '' @ d @ ''_content''))
         | Some c \<Rightarrow> fst (load_module L F t1 (''scraper_'' @ d @ ''_content'') cp))"
    unfolding get_scraper_unfold [OF pc] t1_def by (simp split: option.splits)
  show ?thesis
    unfolding get_scraper_pipeline_unfold [OF assms s1_def s2_def s3_def] gl gc r2 l1 l2
    by (auto split: option.splits sum.splits)
qed

lemma tiers_agree:
  assumes "\<not> local_read_fails F p" "\<not> local_write_fails F p" "\<not> gcs_read_fails F p"
    and "bucket st \<longrightarrow> map_of (local_files st) p \<noteq> None \<longrightarrow> map_of (blobs st) p \<noteq> None"
  shows "exists_path F st p = (fst (read_content F st p) \<noteq> None)"
  using assms
  by (auto simp: exists_path_def read_content_def read_local_def split: option.splits if_splits)

lemma importable_load:
  assumes "\<not> local_read_fails F p" "\<not> local_write_fails F p" "\<not> gcs_read_fails F p"
    and "importable L F st name p"
    and "fst (read_content F st p) = Some c"
  shows "\<exists>m. fst (load_module L F (snd (read_content F st p)) name p) = Inr m"
proof -
  define s1 where "s1 = snd (read_content F st p)"
  have l: "map_of (local_files s1) p = Some c" and pc: "pycache s1 = pycache st"
    using assms(1,2,3,5) unfolding s1_def
    by (auto simp: read_content_def read_local_def save_local_cache_def write_local_simps
          split: option.splits if_splits)
  have i: "\<not> compile_fails L c" "exec_raises L name c = None"
    using assms(4,5) by (simp_all add: importable_def)
  have j: "exec_raises L name code = None" if "map_of (pycache st) p = Some (s, code)" for s code
    using assms(4) that by (simp add: importable_def)
  show ?thesis
    unfolding s1_def [symmetric] load_module_def cached_code_def
    using l pc i j assms(1) by (auto simp: run_module_def split: option.splits)
qed

text \<open>
  C4, as stated: \<open>has_scraper_pipeline\<close> is true iff both artifacts exist, and
  \<open>get_scraper_pipeline\<close> fails when a half is missing. The two functions ask the
  storage in different ways: \<open>exists\<close> asks only the bucket when one is configured,
  \<open>read_content\<close> falls back to the local cache. With a bucket configured and both
  scrapers only in the local cache, \<open>has_scraper_pipeline\<close> is false while
  \<open>get_scraper_pipeline\<close> returns the pair and \<open>get_scraper\<close> loads each half.
\<close>

theorem C4_counterexample:
  "has_scraper_pipeline no_faults local_only_storage ''a.com'' = False
   \<and> fst (get_scraper_pipeline example_lib no_faults local_only_storage ''a.com'')
       = Inr (''def scrape(url): return {1: []}'', ''def scrape(url): return {}'')
   \<and> fst (get_scraper example_lib no_faults local_only_storage ''a.com_list'') = Inr ''def scrape(url): return {1: []}''
   \<and> fst (get_scraper example_lib no_faults local_only_storage ''a.com_content'') = Inr ''def scrape(url): return {}''"
proof -
  have c: "compile_fails example_lib src = False" for src
    by (simp add: example_lib_def)
  have l: "fst (get_scraper example_lib no_faults local_only_storage ''a.com_list'') = Inr ''def scrape(url): return {1: []}''"
    by (simp add: get_scraper_def Let_def ensure_file_available_def read_content_def read_local_def
          load_module_def cached_code_def local_only_storage_def local_repository_def no_faults_def
          replace_dots_def example_imports c)
  have m: "fst (get_scraper example_lib no_faults local_only_storage ''a.com_content'') = Inr ''def scrape(url): return {}''"
    by (simp add: get_scraper_def Let_def ensure_file_available_def read_content_def read_local_def
          load_module_def cached_code_def local_only_storage_def local_repository_def no_faults_def
          replace_dots_def example_imports c)
  have r: "fst (read_content no_faults local_only_storage (''scrapers/'' @ replace_dots ''a.com'' @ ''_list.py'')) \<noteq> None"
          "fst (read_content no_faults local_only_storage (''scrapers/'' @ replace_dots ''a.com'' @ ''_content.py'')) \<noteq> None"
    by (simp_all add: read_content_def read_local_def local_only_storage_def local_repository_def
          no_faults_def replace_dots_def)
  have h: "has_scraper_pipeline no_faults local_only_storage ''a.com'' = False"
    by (simp add: has_scraper_pipeline_def Let_def exists_path_def local_only_storage_def
          local_repository_def no_faults_def replace_dots_def)
  show ?thesis
    using h l m r by (simp add: pipeline_unfolded [OF refl refl])
qed


text \<open>
  C4, amended: \<open>has_scraper_pipeline\<close> is true iff \<open>exists\<close> holds for both the
  list and the content path. \<open>get_scraper_pipeline\<close> fails with the
  \<open>FileNotFoundError\<close> "Incomplete pipeline for domain" whenever one of the two
  cannot be read; the error has the class of the resolver's not-found error and differs
  from it by its message; a returned pair is never partial: its halves are what
  \<open>get_scraper\<close> loads for the list and the content key. When the reads and cache
  writes of the two paths do not raise and no file is in the local cache only (no bucket,
  or every local file also a blob), \<open>has_scraper_pipeline\<close> is true iff both
  artifacts can be read, and, when moreover what is stored for the two paths imports
  without raising, iff \<open>get_scraper_pipeline\<close> returns a pair.
\<close>

theorem C4_pipeline:
  assumes "lp = ''scrapers/'' @ replace_dots d @ ''_list.py''"
    and "cp = ''scrapers/'' @ replace_dots d @ ''_content.py''"
  shows "has_scraper_pipeline F st d = (exists_path F st lp \<and> exists_path F st cp)
       \<and> (fst (read_content F st lp) = None \<or> fst (read_content F st cp) = None \<longrightarrow>
            fst (get_scraper_pipeline L F st d)
              = Inl (FileNotFoundError (''Incomplete pipeline for domain: '' @ d)))
       \<and> (\<forall>d'. FileNotFoundError (''Incomplete pipeline for domain: '' @ d)
               \<noteq> FileNotFoundError (''No scraper found for domain: '' @ d'))
       \<and> (\<forall>l c. fst (get_scraper_pipeline L F st d) = Inr (l, c) \<longrightarrow>
               fst (get_scraper L F st (d @ ''_list'')) = Inr l
             \<and> fst (get_scraper L F st (d @ ''_content'')) = Inr c)
       \<and> ((\<forall>p\<in>{lp, cp}. \<not> local_read_fails F p \<and> \<not> local_write_fails F p \<and> \<not> gcs_read_fails F p
               \<and> (bucket st \<longrightarrow> map_of (local_files st) p \<noteq> None \<longrightarrow> map_of (blobs st) p \<noteq> None)) \<longrightarrow>
            has_scraper_pipeline F st d
              = (fst (read_content F st lp) \<noteq> None \<and> fst (read_content F st cp) \<noteq> None)
          \<and> (importable L F st (''scraper_'' @ d @ ''_list'') lp
               \<and> importable L F st (''scraper_'' @ d @ ''_content'') cp \<longrightarrow>
             has_scraper_pipeline F st d = (\<exists>l c. fst (get_scraper_pipeline L F st d) = Inr (l, c))))"
proof (intro conjI impI allI)
  show "has_scraper_pipeline F st d = (exists_path F st lp \<and> exists_path F st cp)"
    by (simp add: has_scraper_pipeline_def Let_def assms)
  note u = pipeline_unfolded [OF assms, of L F st]
  show "fst (get_scraper_pipeline L F st d) = Inl (FileNotFoundError (''Incomplete pipeline for domain: '' @ d))"
    if "fst (read_content F st lp) = None \<or> fst (read_content F st cp) = None"
    using that u by auto
  show "FileNotFoundError (''Incomplete pipeline for domain: '' @ d)
          \<noteq> FileNotFoundError (''No scraper found for domain: '' @ d')" for d'
    by simp
  show "fst (get_scraper L F st (d @ ''_list'')) = Inr l" if "fst (get_scraper_pipeline L F st d) = Inr (l, c)" for l c
    using that u by (auto split: if_splits sum.splits)
  show "fst (get_scraper L F st (d @ ''_content'')) = Inr c" if "fst (get_scraper_pipeline L F st d) = Inr (l, c)" for l c
    using that u by (auto split: if_splits sum.splits)
  assume a: "\<forall>p\<in>{lp, cp}. \<not> local_read_fails F p \<and> \<not> local_write_fails F p \<and> \<not> gcs_read_fails F p
               \<and> (bucket st \<longrightarrow> map_of (local_files st) p \<noteq> None \<longrightarrow> map_of (blobs st) p \<noteq> None)"
  have el: "exists_path F st lp = (fst (read_content F st lp) \<noteq> None)"
    by (rule tiers_agree) (use a in simp_all)
  have ec: "exists_path F st cp = (fst (read_content F st cp) \<noteq> None)"
    by (rule tiers_agree) (use a in simp_all)
  show "has_scraper_pipeline F st d
          = (fst (read_content F st lp) \<noteq> None \<and> fst (read_content F st cp) \<noteq> None)"
    unfolding has_scraper_pipeline_def Let_def assms [symmetric] el ec by simp
  assume i: "importable L F st (''scraper_'' @ d @ ''_list'') lp
               \<and> importable L F st (''scraper_'' @ d @ ''_content'') cp"
  have pl: "lp = ''scrapers/'' @ (replace_dots (d @ ''_list'') @ ''.py'')"
    and pc: "cp = ''scrapers/'' @ (replace_dots (d @ ''_content'') @ ''.py'')"
    by (simp_all add: assms replace_dots_suffix)
  have ll: "\<exists>m. fst (load_module L F (snd (read_content F st lp)) (''scraper_'' @ d @ ''_list'') lp) = Inr m"
    if "fst (read_content F st lp) = Some x" for x
    using that by (rule importable_load [rotated -1]) (use a i in simp_all)
  have lc: "\<exists>m. fst (load_module L F (snd (read_content F st cp)) (''scraper_'' @ d @ ''_content'') cp) = Inr m"
    if "fst (read_content F st cp) = Some x" for x
    using that by (rule importable_load [rotated -1]) (use a i in simp_all)
  have gl: "\<exists>m. fst (get_scraper L F st (d @ ''_list'')) = Inr m" if "fst (read_content F st lp) = Some x" for x
    using that ll [OF that] unfolding get_scraper_unfold [OF pl] by (auto split: option.splits)
  have gc: "\<exists>m. fst (get_scraper L F st (d @ ''_content'')) = Inr m" if "fst (read_content F st cp) = Some x" for x
    using that lc [OF that] unfolding get_scraper_unfold [OF pc] by (auto split: option.splits)
  show "has_scraper_pipeline F st d = (\<exists>l c. fst (get_scraper_pipeline L F st d) = Inr (l, c))"
  proof (cases "fst (read_content F st lp)")
    case None
    then show ?thesis
      unfolding u has_scraper_pipeline_def Let_def assms [symmetric] el ec by simp
  next
    case l: (Some x)
    show ?thesis
    proof (cases "fst (read_content F st cp)")
      case None
      then show ?thesis
        unfolding u has_scraper_pipeline_def Let_def assms [symmetric] el ec by simp
    next
      case c: (Some y)
      obtain m n where "fst (get_scraper L F st (d @ ''_list'')) = Inr m"
          "fst (get_scraper L F st (d @ ''_content'')) = Inr n"
        using gl [OF l] gc [OF c] by auto
      then show ?thesis
        unfolding u has_scraper_pipeline_def Let_def assms [symmetric] el ec
        using l c by simp
    qed
  qed
qed

theorem C4_pipeline_witness:
  "has_scraper_pipeline no_faults list_only_storage ''a.com'' = False
   \<and> fst (get_scraper_pipeline example_lib no_faults list_only_storage ''a.com'')
        = Inl (FileNotFoundError ''Incomplete pipeline for domain: a.com'')
   \<and> (\<exists>l c. fst (get_scraper_pipeline example_lib no_faults (local_only_storage\<lparr>bucket := False\<rparr>) ''a.com'') = Inr (l, c))"
proof -
  note a = C4_pipeline [OF refl refl, of no_faults list_only_storage "''a.com''" example_lib]
  note b = C4_pipeline [OF refl refl, of no_faults "local_only_storage\<lparr>bucket := False\<rparr>" "''a.com''" example_lib]
  have r: "fst (read_content no_faults list_only_storage (''scrapers/'' @ replace_dots ''a.com'' @ ''_content.py'')) = None"
    by (simp add: read_content_def read_local_def list_only_storage_def local_repository_def
          no_faults_def replace_dots_def)
  have h: "has_scraper_pipeline no_faults list_only_storage ''a.com'' = False"
    using a by (simp add: exists_path_def list_only_storage_def local_repository_def no_faults_def replace_dots_def)
  have i: "fst (get_scraper_pipeline example_lib no_faults list_only_storage ''a.com'')
        = Inl (FileNotFoundError ''Incomplete pipeline for domain: a.com'')"
    using a r by simp
  have m: "importable example_lib no_faults (local_only_storage\<lparr>bucket := False\<rparr>)
             (''scraper_'' @ ''a.com'' @ ''_list'') (''scrapers/'' @ replace_dots ''a.com'' @ ''_list.py'')"
          "importable example_lib no_faults (local_only_storage\<lparr>bucket := False\<rparr>)
             (''scraper_'' @ ''a.com'' @ ''_content'') (''scrapers/'' @ replace_dots ''a.com'' @ ''_content.py'')"
    by (simp_all add: importable_def read_content_def read_local_def local_only_storage_def
          local_repository_def no_faults_def replace_dots_def example_lib_def example_sources_def)
  have "has_scraper_pipeline no_faults (local_only_storage\<lparr>bucket := False\<rparr>) ''a.com''"
    by (simp add: has_scraper_pipeline_def Let_def exists_path_def local_only_storage_def
          local_repository_def no_faults_def replace_dots_def)
  then have "\<exists>l c. fst (get_scraper_pipeline example_lib no_faults (local_only_storage\<lparr>bucket := False\<rparr>) ''a.com'') = Inr (l, c)"
    using b m by (simp add: no_faults_def)
  with h i show ?thesis by simp
qed

section \<open>Claim C5\<close>

















end
